theory Spec2Isabelle
  imports Main
begin

section \<open>JavaScript values, errors and coercions\<close>

text \<open>
  The repository has two scripts: the news page's (\<^verbatim>\<open>src/unnamed/part_000\<close>, the
  \<^verbatim>\<open>fetch-news\<close> click handler with the download button's \<^verbatim>\<open>onclick\<close> it installs)
  and \<^verbatim>\<open>static/js/login.js\<close> (the \<^verbatim>\<open>login-form\<close> submit handler). Line numbers
  below are those of the news page's script unless login.js is named. Each handler is
  modelled as a function from the platform's answers and the page before to the page
  after, with every \<^verbatim>\<open>throw\<close> a value.

  The handlers only ever touch values that come out of \<^verbatim>\<open>JSON.parse\<close>, plus
  \<^verbatim>\<open>undefined\<close> from reading a missing property. A Number is kept by the two things
  the handlers observe of it: whether it is zero (the only falsy Number \<^verbatim>\<open>JSON.parse\<close>
  can produce) and its rendering by \<^verbatim>\<open>ToString\<close>.
\<close>

datatype jsval =
    JUndefined
  | JNull
  | JBool bool
  | JNum (num_is_zero: bool) (num_text: string)
  | JStr string
  | JArr "jsval list"
  | JObj "(string \<times> jsval) list"

text \<open>
  What the engine raises by itself. The wording of these \<^verbatim>\<open>TypeError\<close> messages is
  left to the engine, so an error carries the fault and the environment supplies its text.
\<close>

datatype fault =
    ReadOfNullish jsval string
  | NotCallable string
  | NotPrimitive
  | BodyAlreadyRead

datatype js_error =
    Thrown string string
  | EngineTypeError fault

fun error_name :: "js_error \<Rightarrow> string" where
  "error_name (Thrown n m) = n"
| "error_name (EngineTypeError f) = ''TypeError''"

fun truthy :: "jsval \<Rightarrow> bool" where
  "truthy JUndefined = False"
| "truthy JNull = False"
| "truthy (JBool b) = b"
| "truthy (JNum z t) = (\<not> z)"
| "truthy (JStr s) = (s \<noteq> [])"
| "truthy (JArr xs) = True"
| "truthy (JObj kvs) = True"

text \<open>\<^verbatim>\<open>a || b\<close> on values, and on strings (the empty string is the only falsy one).\<close>

definition or_else :: "jsval \<Rightarrow> jsval \<Rightarrow> jsval" where
  "or_else a b = (if truthy a then a else b)"

definition str_or_else :: "string \<Rightarrow> string \<Rightarrow> string" where
  "str_or_else a b = (if a \<noteq> [] then a else b)"

text \<open>\<^verbatim>\<open>Array.prototype.join\<close> on strings that are already converted.\<close>

fun join :: "string \<Rightarrow> string list \<Rightarrow> string" where
  "join sep [] = []"
| "join sep [x] = x"
| "join sep (x # y # ys) = x @ sep @ join sep (y # ys)"

text \<open>
  \<^verbatim>\<open>ToString\<close>, as a template literal, the \<^verbatim>\<open>Error\<close> constructor and the
  \<^verbatim>\<open>textContent\<close> setter apply it. An array is joined with commas, its elements
  converted in order, \<^verbatim>\<open>null\<close> and \<^verbatim>\<open>undefined\<close> elements giving the empty
  string. A plain object is converted by its \<^verbatim>\<open>toString\<close> method: the inherited one
  gives \<^verbatim>\<open>[object Object]\<close>, but an own \<^verbatim>\<open>toString\<close> property hides it, and
  what \<^verbatim>\<open>JSON.parse\<close> stores there is never callable, so the conversion throws a
  \<^verbatim>\<open>TypeError\<close> (the inherited \<^verbatim>\<open>valueOf\<close> gives back the object, an own one
  is not callable either).
\<close>

fun ToString :: "jsval \<Rightarrow> js_error + string"
  and ToString_elements :: "jsval list \<Rightarrow> js_error + string list" where
  "ToString JUndefined = Inr ''undefined''"
| "ToString JNull = Inr ''null''"
| "ToString (JBool b) = Inr (if b then ''true'' else ''false'')"
| "ToString (JNum z t) = Inr t"
| "ToString (JStr s) = Inr s"
| "ToString (JArr xs) =
     (case ToString_elements xs of Inl e \<Rightarrow> Inl e | Inr ss \<Rightarrow> Inr (join '','' ss))"
| "ToString (JObj kvs) =
     (if map_of kvs ''toString'' \<noteq> None then Inl (EngineTypeError NotPrimitive)
      else Inr ''[object Object]'')"
| "ToString_elements [] = Inr []"
| "ToString_elements (x # xs) =
     (case (case x of JUndefined \<Rightarrow> Inr [] | JNull \<Rightarrow> Inr [] | _ \<Rightarrow> ToString x) of
        Inl e \<Rightarrow> Inl e
      | Inr s \<Rightarrow>
          (case ToString_elements xs of Inl e \<Rightarrow> Inl e | Inr ss \<Rightarrow> Inr (s # ss)))"

fun decimal :: "nat \<Rightarrow> string" where
  "decimal n =
     (if n < 10 then [''0123456789'' ! n]
      else decimal (n div 10) @ [''0123456789'' ! (n mod 10)])"

text \<open>
  Property read \<^verbatim>\<open>v.k\<close>, for the property names the handlers use (none of them is
  inherited from a prototype, none is an array index). Reading a property of
  \<^verbatim>\<open>null\<close> or \<^verbatim>\<open>undefined\<close> throws; a string and an array own \<^verbatim>\<open>length\<close>.
\<close>

fun Get :: "jsval \<Rightarrow> string \<Rightarrow> js_error + jsval" where
  "Get JUndefined k = Inl (EngineTypeError (ReadOfNullish JUndefined k))"
| "Get JNull k = Inl (EngineTypeError (ReadOfNullish JNull k))"
| "Get (JObj kvs) k = Inr (case map_of kvs k of None \<Rightarrow> JUndefined | Some v \<Rightarrow> v)"
| "Get (JArr xs) k =
     Inr (if k = ''length'' then JNum (xs = []) (decimal (length xs)) else JUndefined)"
| "Get (JStr s) k =
     Inr (if k = ''length'' then JNum (s = []) (decimal (length s)) else JUndefined)"
| "Get (JBool b) k = Inr JUndefined"
| "Get (JNum z t) k = Inr JUndefined"

text \<open>Optional chaining \<^verbatim>\<open>v?.k\<close>.\<close>

definition OptGet :: "jsval \<Rightarrow> string \<Rightarrow> js_error + jsval" where
  "OptGet v k = (case v of JUndefined \<Rightarrow> Inr JUndefined | JNull \<Rightarrow> Inr JUndefined | _ \<Rightarrow> Get v k)"

text \<open>\<^verbatim>\<open>v === 0\<close>.\<close>

definition strict_eq_zero :: "jsval \<Rightarrow> bool" where
  "strict_eq_zero v = (case v of JNum z t \<Rightarrow> z | _ \<Rightarrow> False)"

text \<open>\<^verbatim>\<open>Array.prototype.map\<close> with a callback that may throw: the first throw ends it.\<close>

fun Array_map :: "('a \<Rightarrow> js_error + 'b) \<Rightarrow> 'a list \<Rightarrow> js_error + 'b list" where
  "Array_map f [] = Inr []"
| "Array_map f (x # xs) =
     (case f x of
        Inl e \<Rightarrow> Inl e
      | Inr y \<Rightarrow> (case Array_map f xs of Inl e \<Rightarrow> Inl e | Inr ys \<Rightarrow> Inr (y # ys)))"

text \<open>Sequencing of steps that may throw: the first throw ends the sequence.\<close>

definition and_then :: "js_error + 'a \<Rightarrow> ('a \<Rightarrow> js_error + 'b) \<Rightarrow> js_error + 'b" where
  "and_then r f = (case r of Inl e \<Rightarrow> Inl e | Inr v \<Rightarrow> f v)"

section \<open>The environment of one handler run\<close>

datatype request =
    FetchNews string string
  | GeneratePdf jsval string string
  | Login string string

text \<open>
  An HTTP response as \<^verbatim>\<open>fetch\<close> resolves with it: \<^verbatim>\<open>ok\<close> (status 200 to 299) and
  the body, which is \<^verbatim>\<open>None\<close> for a null body (status 204 or 205 among the 2xx),
  and otherwise either the content or the error that reading it runs into.
\<close>

record response =
  ok :: bool
  body :: "(js_error + string) option"

text \<open>
  The platform around the handlers: the clock, the network, \<^verbatim>\<open>JSON.parse\<close> (\<open>Inl\<close>
  is the message of the \<^verbatim>\<open>SyntaxError\<close> it throws), the engine's wording of its own
  \<^verbatim>\<open>TypeError\<close>s, and whether \<^verbatim>\<open>Date\<close> rolls a day of month beyond the month's
  length over into the next month (V8) or calls the date invalid (SpiderMonkey).
\<close>

record env =
  clock_now :: int
  fetch :: "request \<Rightarrow> js_error + response"
  JSON_parse :: "string \<Rightarrow> string + jsval"
  TypeError_message :: "fault \<Rightarrow> string"
  Date_rollover :: bool

fun error_message :: "env \<Rightarrow> js_error \<Rightarrow> string" where
  "error_message E (Thrown n m) = m"
| "error_message E (EngineTypeError f) = TypeError_message E f"

text \<open>
  \<^verbatim>\<open>response.text()\<close> and \<^verbatim>\<open>response.blob()\<close> both consume the body: a body that
  is not null can be read once, and a second read rejects with a \<^verbatim>\<open>TypeError\<close>. The
  flag is the response object's \<^verbatim>\<open>bodyUsed\<close>.
\<close>

definition consume_body :: "response \<Rightarrow> bool \<Rightarrow> (js_error + string) \<times> bool" where
  "consume_body r bodyUsed =
     (case body r of
        None \<Rightarrow> (Inr [], bodyUsed)
      | Some content \<Rightarrow>
          if bodyUsed then (Inl (EngineTypeError BodyAlreadyRead), bodyUsed)
          else (content, True))"

section \<open>The date checks\<close>

definition is_digit :: "char \<Rightarrow> bool" where
  "is_digit c = (c \<in> set ''0123456789'')"

definition digit_val :: "char \<Rightarrow> nat" where
  "digit_val c = of_char c - 48"

definition number_of :: "string \<Rightarrow> int" where
  "number_of s = int (foldl (\<lambda>n c. 10 * n + digit_val c) 0 s)"

text \<open>\<^verbatim>\<open>/^\d{4}-\d{2}-\d{2}$/.test(date)\<close>\<close>

definition dateRegex_test :: "string \<Rightarrow> bool" where
  "dateRegex_test s =
     (length s = 10 \<and> list_all is_digit (take 4 s) \<and> s ! 4 = CHR ''-'' \<and>
      list_all is_digit (take 2 (drop 5 s)) \<and> s ! 7 = CHR ''-'' \<and>
      list_all is_digit (drop 8 s))"

text \<open>The day arithmetic of ECMAScript's \<^verbatim>\<open>Date\<close> (months count from 1 here).\<close>

definition DayFromYear :: "int \<Rightarrow> int" where
  "DayFromYear y =
     365 * (y - 1970) + (y - 1969) div 4 - (y - 1901) div 100 + (y - 1601) div 400"

definition InLeapYear :: "int \<Rightarrow> bool" where
  "InLeapYear y = (y mod 4 = 0 \<and> (y mod 100 \<noteq> 0 \<or> y mod 400 = 0))"

definition DaysInMonth :: "int \<Rightarrow> int \<Rightarrow> int" where
  "DaysInMonth y m =
     (if m = 2 then (if InLeapYear y then 29 else 28)
      else if m = 4 \<or> m = 6 \<or> m = 9 \<or> m = 11 then 30 else 31)"

definition DaysBeforeMonth :: "int \<Rightarrow> int \<Rightarrow> int" where
  "DaysBeforeMonth y m =
     [0, 31, 59, 90, 120, 151, 181, 212, 243, 273, 304, 334] ! nat (m - 1)
       + (if InLeapYear y \<and> 2 < m then 1 else 0)"

definition MakeDay :: "int \<Rightarrow> int \<Rightarrow> int \<Rightarrow> int" where
  "MakeDay y m d = DayFromYear y + DaysBeforeMonth y m + d - 1"

definition MakeTime :: "int \<Rightarrow> int \<Rightarrow> int \<Rightarrow> int" where
  "MakeTime h mi s = ((h * 60 + mi) * 60 + s) * 1000"

definition TimeClip :: "int \<Rightarrow> int option" where
  "TimeClip t = (if 8640000000000000 < \<bar>t\<bar> then None else Some t)"

text \<open>
  \<^verbatim>\<open>new Date(s)\<close> for a date-time string \<^verbatim>\<open>YYYY-MM-DDTHH:mm:ss+HH:mm\<close>, the only
  shape the handler builds (it appends \<^verbatim>\<open>T23:59:59+05:30\<close> to a string that passed
  the pattern). The result is the time value in milliseconds since the epoch, or
  \<open>None\<close> for an invalid date (time value \<^verbatim>\<open>NaN\<close>).
\<close>

definition Date_parse :: "bool \<Rightarrow> string \<Rightarrow> int option" where
  "Date_parse rollover s =
     (if length s = 25 \<and> list_all is_digit (take 4 s) \<and> s ! 4 = CHR ''-'' \<and>
         list_all is_digit (take 2 (drop 5 s)) \<and> s ! 7 = CHR ''-'' \<and>
         list_all is_digit (take 2 (drop 8 s)) \<and> s ! 10 = CHR ''T'' \<and>
         list_all is_digit (take 2 (drop 11 s)) \<and> s ! 13 = CHR '':'' \<and>
         list_all is_digit (take 2 (drop 14 s)) \<and> s ! 16 = CHR '':'' \<and>
         list_all is_digit (take 2 (drop 17 s)) \<and>
         (s ! 19 = CHR ''+'' \<or> s ! 19 = CHR ''-'') \<and>
         list_all is_digit (take 2 (drop 20 s)) \<and> s ! 22 = CHR '':'' \<and>
         list_all is_digit (drop 23 s)
      then
        (let y = number_of (take 4 s); m = number_of (take 2 (drop 5 s));
             d = number_of (take 2 (drop 8 s)); h = number_of (take 2 (drop 11 s));
             mi = number_of (take 2 (drop 14 s)); sec = number_of (take 2 (drop 17 s));
             oh = number_of (take 2 (drop 20 s)); om = number_of (drop 23 s);
             offset = (if s ! 19 = CHR ''+'' then 1 else - 1) * MakeTime oh om 0
         in if 1 \<le> m \<and> m \<le> 12 \<and> 1 \<le> d \<and>
               d \<le> (if rollover then 31 else DaysInMonth y m) \<and>
               h \<le> 23 \<and> mi \<le> 59 \<and> sec \<le> 59 \<and> oh \<le> 23 \<and> om \<le> 59
            then TimeClip (MakeDay y m d * 86400000 + MakeTime h mi sec - offset)
            else None)
      else None)"

text \<open>\<^verbatim>\<open>selectedDate > today\<close>: a comparison with an invalid date is false.\<close>

definition Date_gt :: "int option \<Rightarrow> int \<Rightarrow> bool" where
  "Date_gt selectedDate today = (case selectedDate of None \<Rightarrow> False | Some t \<Rightarrow> today < t)"

section \<open>The page\<close>

text \<open>
  The part of the document the news handlers read and write: the two inputs, the status
  line (\<^verbatim>\<open>error-message\<close>), the rows of \<^verbatim>\<open>news-body\<close> (each row by the markup
  assigned to its \<^verbatim>\<open>innerHTML\<close>), the download button's display style and the closure
  bound to its \<^verbatim>\<open>onclick\<close> (by the variables it captures: the articles, the district
  and the date), the anchors appended to the document body, the live object URLs with
  their blobs, the downloads the browser was asked for (file name and content), and the
  network calls issued so far. Console output is not part of the model.
\<close>

record page =
  district_value :: string
  date_value :: string
  errorMessage_textContent :: string
  newsBody_rows :: "string list"
  downloadButton_display :: string
  downloadButton_onclick :: "(jsval \<times> string \<times> string) option"
  body_children :: "(nat \<times> string) list"
  object_urls :: "(nat \<times> string) list"
  next_object_url :: nat
  downloads :: "(string \<times> string option) list"
  requests :: "request list"

section \<open>Rendering the rows\<close>

definition a_tag :: "string \<Rightarrow> string \<Rightarrow> string" where
  \<open>a_tag href label = ''<a href="'' @ href @ ''" target="_blank">'' @ label @ ''</a>''\<close>

definition related_div :: "string \<Rightarrow> string \<Rightarrow> string \<Rightarrow> string \<Rightarrow> string" where
  "related_div href label source_name published =
     ''<div>'' @ a_tag href label @ '' ('' @ source_name @ '', '' @ published @ '')</div>''"

definition row_indent :: string where
  "row_indent = CHR 0x0A # replicate 16 (CHR '' '')"

definition row_innerHTML ::
  "string \<Rightarrow> string \<Rightarrow> string \<Rightarrow> string \<Rightarrow> string \<Rightarrow> string \<Rightarrow> string" where
  "row_innerHTML href label category source_name published related =
     row_indent @ ''<td>'' @ a_tag href label @ ''</td>'' @
     row_indent @ ''<td>'' @ category @ ''</td>'' @
     row_indent @ ''<td>'' @ source_name @ ''</td>'' @
     row_indent @ ''<td>'' @ published @ ''</td>'' @
     row_indent @ ''<td>'' @ related @ ''</td>'' @
     CHR 0x0A # replicate 12 (CHR '' '')"

text \<open>
  The callback of \<^verbatim>\<open>(article.related_articles || []).map\<close>: the template literal
  of line 92 evaluates and converts its substitutions from left to right.
\<close>

definition render_related :: "jsval \<Rightarrow> js_error + string" where
  "render_related rel =
     and_then (Get rel ''url'') (\<lambda>url.
     and_then (ToString (or_else url (JStr ''#''))) (\<lambda>href.
     and_then (Get rel ''title'') (\<lambda>title.
     and_then (ToString (or_else title (JStr ''No Title''))) (\<lambda>label.
     and_then (Get rel ''source'') (\<lambda>source.
     and_then (OptGet source ''name'') (\<lambda>name.
     and_then (ToString (or_else name (JStr ''Unknown Source''))) (\<lambda>source_text.
     and_then (Get rel ''publishedAt'') (\<lambda>publishedAt.
     and_then (ToString (or_else publishedAt (JStr ''Unknown Date''))) (\<lambda>published_text.
       Inr (related_div href label source_text published_text))))))))))"

text \<open>
  The callback of \<^verbatim>\<open>result.articles.forEach\<close>, up to the markup of the row. Only an
  array has a \<^verbatim>\<open>map\<close> method among the values \<^verbatim>\<open>JSON.parse\<close> returns.
\<close>

definition render_article :: "jsval \<Rightarrow> js_error + string" where
  "render_article article =
     and_then (Get article ''source'') (\<lambda>source.
     and_then (OptGet source ''name'') (\<lambda>name.
     and_then (Get article ''publishedAt'') (\<lambda>published.
     and_then (Get article ''related_articles'') (\<lambda>related.
     and_then
       (case or_else related (JArr []) of
          JArr rels \<Rightarrow> Array_map render_related rels
        | _ \<Rightarrow> Inl (EngineTypeError (NotCallable ''map''))) (\<lambda>divs.
     and_then (Get article ''url'') (\<lambda>url.
     and_then (ToString (or_else url (JStr ''#''))) (\<lambda>href.
     and_then (Get article ''title'') (\<lambda>title.
     and_then (ToString (or_else title (JStr ''No Title''))) (\<lambda>label.
     and_then (Get article ''category'') (\<lambda>category.
     and_then (ToString (or_else category (JStr ''Unknown''))) (\<lambda>category_text.
     and_then (ToString (or_else name (JStr ''Unknown Source''))) (\<lambda>source_text.
     and_then (ToString (or_else published (JStr ''Unknown Date''))) (\<lambda>published_text.
       Inr (row_innerHTML href label category_text source_text published_text
              (str_or_else (join [] divs) ''None'')))))))))))))))"

text \<open>\<^verbatim>\<open>forEach\<close>: each article appends its row; a throw leaves the rows appended so far.\<close>

fun forEach_article :: "jsval list \<Rightarrow> page \<Rightarrow> js_error option \<times> page" where
  "forEach_article [] p = (None, p)"
| "forEach_article (article # rest) p =
     (case render_article article of
        Inl e \<Rightarrow> (Some e, p)
      | Inr row \<Rightarrow> forEach_article rest (p\<lparr>newsBody_rows := newsBody_rows p @ [row]\<rparr>))"

section \<open>The fetch-news click handler\<close>

definition mock_message :: "string \<Rightarrow> string" where
  "mock_message district =
     ''No real articles found for '' @ district @
     ''. Displaying sample data. Please verify your Currents API key in .env (get a free key at https://currentsapi.services/en).''"

text \<open>Lines 44 to 50 and 120 to 126: the body as text, or the placeholder.\<close>

definition body_text :: "js_error + string \<Rightarrow> string" where
  "body_text t = (case t of Inl e \<Rightarrow> ''No response body'' | Inr s \<Rightarrow> s)"

definition read_text :: "response \<Rightarrow> string" where
  "read_text response = body_text (fst (consume_body response False))"

text \<open>
  Lines 53 to 61: \<^verbatim>\<open>userMessage\<close> for a response that is not ok, the generic text
  or the value of the body's \<^verbatim>\<open>error\<close> property as it is.
\<close>

definition fetch_userMessage :: "env \<Rightarrow> string \<Rightarrow> jsval" where
  "fetch_userMessage E errorText =
     (case JSON_parse E errorText of
        Inl m \<Rightarrow> JStr ''Failed to fetch news. Please try again later.''
      | Inr errorData \<Rightarrow>
          (case Get errorData ''error'' of
             Inl e \<Rightarrow> JStr ''Failed to fetch news. Please try again later.''
           | Inr err \<Rightarrow>
               if truthy err then err
               else JStr ''Failed to fetch news. Please try again later.''))"

text \<open>
  Line 62, \<^verbatim>\<open>throw new Error(userMessage)\<close>: the constructor converts its argument,
  and what is thrown is the \<^verbatim>\<open>Error\<close>, or the \<^verbatim>\<open>TypeError\<close> of the conversion.
\<close>

definition new_Error :: "jsval \<Rightarrow> js_error" where
  "new_Error message =
     (case ToString message of Inl e \<Rightarrow> e | Inr m \<Rightarrow> Thrown ''Error'' m)"

definition no_articles :: "page \<Rightarrow> page" where
  "no_articles p =
     p\<lparr>errorMessage_textContent := ''No articles found for the selected district and date.'',
       newsBody_rows := [],
       downloadButton_display := ''none''\<rparr>"

text \<open>
  Lines 86 to 155: the rows are cleared and rendered, the download button is shown and
  its handler bound. Only an array has a \<^verbatim>\<open>forEach\<close> method among the values
  \<^verbatim>\<open>JSON.parse\<close> returns; \<open>len\<close> is \<^verbatim>\<open>result.articles.length\<close>.
\<close>

definition render_articles ::
  "string \<Rightarrow> string \<Rightarrow> jsval \<Rightarrow> jsval \<Rightarrow> page \<Rightarrow> js_error option \<times> page" where
  "render_articles district date articles len p =
     (let p1 = p\<lparr>newsBody_rows := []\<rparr>
      in case articles of
           JArr arts \<Rightarrow>
             (case forEach_article arts p1 of
                (Some e, p2) \<Rightarrow> (Some e, p2)
              | (None, p2) \<Rightarrow>
                  (None, p2\<lparr>downloadButton_display :=
                               (if truthy len then ''block'' else ''none''),
                             downloadButton_onclick := Some (articles, district, date)\<rparr>))
         | _ \<Rightarrow> (Some (EngineTypeError (NotCallable ''forEach'')), p1))"

text \<open>Lines 65 to 84, after \<^verbatim>\<open>JSON.parse\<close> returned \<open>result\<close>, and on to the rendering.\<close>

definition handle_result ::
  "string \<Rightarrow> string \<Rightarrow> jsval \<Rightarrow> page \<Rightarrow> js_error option \<times> page" where
  "handle_result district date result p =
     (case Get result ''error'' of
        Inl e \<Rightarrow> (Some e, p)
      | Inr err \<Rightarrow>
          if truthy err then
            (case ToString err of
               Inl e \<Rightarrow> (Some e, p)
             | Inr error_text \<Rightarrow>
                 (None, p\<lparr>errorMessage_textContent := ''Server error: '' @ error_text,
                           newsBody_rows := [],
                           downloadButton_display := ''none''\<rparr>))
          else
            (case Get result ''articles'' of
               Inl e \<Rightarrow> (Some e, p)
             | Inr articles \<Rightarrow>
                 if \<not> truthy articles then (None, no_articles p)
                 else
                   (case Get articles ''length'' of
                      Inl e \<Rightarrow> (Some e, p)
                    | Inr len \<Rightarrow>
                        if strict_eq_zero len then (None, no_articles p)
                        else
                          (case Get result ''is_mock'' of
                             Inl e \<Rightarrow> (Some e, p)
                           | Inr is_mock \<Rightarrow>
                               render_articles district date articles len
                                 (p\<lparr>errorMessage_textContent :=
                                      (if truthy is_mock then mock_message district
                                       else ''Articles loaded successfully.'')\<rparr>)))))"

text \<open>The \<^verbatim>\<open>try\<close> block, lines 32 to 155: the error thrown, if any, and the page then.\<close>

definition fetch_news_try ::
  "env \<Rightarrow> string \<Rightarrow> string \<Rightarrow> page \<Rightarrow> js_error option \<times> page" where
  "fetch_news_try E district date p =
     (let p1 = p\<lparr>errorMessage_textContent := ''Fetching news...''\<rparr>;
          p2 = p1\<lparr>requests := requests p1 @ [FetchNews district date]\<rparr>
      in case fetch E (FetchNews district date) of
           Inl e \<Rightarrow> (Some e, p2)
         | Inr response \<Rightarrow>
             (let errorText = read_text response
              in if \<not> ok response then
                   (Some (new_Error (fetch_userMessage E errorText)), p2)
                 else
                   (case JSON_parse E errorText of
                      Inl m \<Rightarrow> (Some (Thrown ''SyntaxError'' m), p2)
                    | Inr result \<Rightarrow> handle_result district date result p2)))"

text \<open>The \<^verbatim>\<open>catch\<close> block, lines 156 to 163.\<close>

definition fetch_news_catch :: "env \<Rightarrow> js_error \<Rightarrow> page \<Rightarrow> page" where
  "fetch_news_catch E error p =
     p\<lparr>errorMessage_textContent :=
         (if error_name error = ''TimeoutError'' then
            ''Request timed out. Please check your internet connection or try again later.''
          else ''Error: '' @ error_message E error),
       newsBody_rows := [],
       downloadButton_display := ''none''\<rparr>"

text \<open>The handler: validation (lines 9 to 29), the \<^verbatim>\<open>try\<close> block, the \<^verbatim>\<open>catch\<close>.\<close>

definition fetch_news_click :: "env \<Rightarrow> page \<Rightarrow> page" where
  "fetch_news_click E p =
     (let district = district_value p; date = date_value p
      in if district = [] then
           p\<lparr>errorMessage_textContent := ''Please select a district''\<rparr>
         else if date = [] then
           p\<lparr>errorMessage_textContent := ''Please select a date''\<rparr>
         else if \<not> dateRegex_test date then
           p\<lparr>errorMessage_textContent := ''Invalid date format (use YYYY-MM-DD)''\<rparr>
         else if Date_gt (Date_parse (Date_rollover E) (date @ ''T23:59:59+05:30''))
                   (clock_now E) then
           p\<lparr>errorMessage_textContent := ''Date cannot be in the future''\<rparr>
         else
           (case fetch_news_try E district date p of
              (Some error, p') \<Rightarrow> fetch_news_catch E error p'
            | (None, p') \<Rightarrow> p'))"

text \<open>All four checks of lines 9 to 29 pass.\<close>

definition validated :: "env \<Rightarrow> page \<Rightarrow> bool" where
  "validated E p =
     (district_value p \<noteq> [] \<and> date_value p \<noteq> [] \<and> dateRegex_test (date_value p) \<and>
      \<not> Date_gt (Date_parse (Date_rollover E) (date_value p @ ''T23:59:59+05:30''))
          (clock_now E))"

section \<open>The download button's handler\<close>

text \<open>
  Lines 129 to 137: \<^verbatim>\<open>userMessage\<close> for a response that is not ok. The template
  literal of line 133 is inside the \<^verbatim>\<open>try\<close>, so a conversion that throws leaves
  the generic text.
\<close>

definition pdf_userMessage :: "env \<Rightarrow> string \<Rightarrow> string" where
  "pdf_userMessage E pdfErrorText =
     (case JSON_parse E pdfErrorText of
        Inl m \<Rightarrow> ''Failed to generate PDF. Please try again later.''
      | Inr pdfError \<Rightarrow>
          (case Get pdfError ''error'' of
             Inl e \<Rightarrow> ''Failed to generate PDF. Please try again later.''
           | Inr err \<Rightarrow>
               if truthy err then
                 (case ToString err of
                    Inl e \<Rightarrow> ''Failed to generate PDF. Please try again later.''
                  | Inr error_text \<Rightarrow> ''PDF generation failed: '' @ error_text)
               else ''Failed to generate PDF. Please try again later.''))"

text \<open>
  Lines 141 to 150, once \<^verbatim>\<open>pdfResponse.blob()\<close> gave \<open>blob\<close>: the object URL is
  created, the anchor is appended (it is then the last child), clicked, removed, and
  the URL is revoked.
\<close>

definition save_blob :: "string \<Rightarrow> string \<Rightarrow> string \<Rightarrow> page \<Rightarrow> page" where
  "save_blob district date blob p =
     (let url = next_object_url p;
          p1 = p\<lparr>object_urls := object_urls p @ [(url, blob)], next_object_url := url + 1\<rparr>;
          a = (url, ''news_digest_'' @ district @ ''_'' @ date @ ''.pdf'');
          p2 = p1\<lparr>body_children := body_children p1 @ [a]\<rparr>;
          p3 = p2\<lparr>downloads := downloads p2 @ [(snd a, map_of (object_urls p2) (fst a))]\<rparr>;
          p4 = p3\<lparr>body_children := butlast (body_children p3)\<rparr>;
          p5 = p4\<lparr>object_urls := filter (\<lambda>(u, b). u \<noteq> url) (object_urls p4)\<rparr>
      in p5\<lparr>errorMessage_textContent := ''PDF downloaded successfully''\<rparr>)"

text \<open>The \<^verbatim>\<open>try\<close> block of the closure, lines 108 to 150.\<close>

definition generate_pdf_try ::
  "env \<Rightarrow> jsval \<Rightarrow> string \<Rightarrow> string \<Rightarrow> page \<Rightarrow> js_error option \<times> page" where
  "generate_pdf_try E articles district date p =
     (let p1 = p\<lparr>errorMessage_textContent := ''Generating PDF...''\<rparr>;
          p2 = p1\<lparr>requests := requests p1 @ [GeneratePdf articles district date]\<rparr>
      in case fetch E (GeneratePdf articles district date) of
           Inl e \<Rightarrow> (Some e, p2)
         | Inr pdfResponse \<Rightarrow>
             (case consume_body pdfResponse False of
                (t, bodyUsed) \<Rightarrow>
                  if \<not> ok pdfResponse then
                    (Some (Thrown ''Error'' (pdf_userMessage E (body_text t))), p2)
                  else
                    (case fst (consume_body pdfResponse bodyUsed) of
                       Inl e \<Rightarrow> (Some e, p2)
                     | Inr blob \<Rightarrow> (None, save_blob district date blob p2))))"

text \<open>A click on the download button runs the closure bound last, if there is one.\<close>

definition downloadButton_click :: "env \<Rightarrow> page \<Rightarrow> page" where
  "downloadButton_click E p =
     (case downloadButton_onclick p of
        None \<Rightarrow> p
      | Some (articles, district, date) \<Rightarrow>
          (case generate_pdf_try E articles district date p of
             (Some pdfError, p') \<Rightarrow>
               p'\<lparr>errorMessage_textContent := error_message E pdfError\<rparr>
           | (None, p') \<Rightarrow> p'))"

section \<open>The login-form submit handler\<close>





section \<open>The data model of the specification\<close>

text \<open>
  An Article and a RelatedArticle as the data model describes them: every field but the
  list of related articles is optional, and a source is an object with an optional
  name.
\<close>

record related_article =
  rel_title :: "string option"
  rel_url :: "string option"
  rel_source :: "string option option"
  rel_publishedAt :: "string option"

record article =
  art_title :: "string option"
  art_url :: "string option"
  art_category :: "string option"
  art_source :: "string option option"
  art_publishedAt :: "string option"
  art_related :: "related_article list"








definition source_name :: "string option option \<Rightarrow> string option" where
  "source_name x = (case x of None \<Rightarrow> None | Some n \<Rightarrow> n)"





text \<open>
  The NewsResult of a run, when the response was 2xx with a JSON body, and the rows of
  a NewsResult that is a successful one: no error, a non-empty array of articles, each
  of which renders.
\<close>

definition news_result :: "env \<Rightarrow> page \<Rightarrow> jsval option" where
  "news_result E p =
     (case fetch E (FetchNews (district_value p) (date_value p)) of
        Inl e \<Rightarrow> None
      | Inr r \<Rightarrow>
          if \<not> ok r then None
          else (case JSON_parse E (read_text r) of Inl m \<Rightarrow> None | Inr result \<Rightarrow> Some result))"

definition news_result_rows :: "jsval \<Rightarrow> string list option" where
  "news_result_rows result =
     (case Get result ''error'' of
        Inl e \<Rightarrow> None
      | Inr err \<Rightarrow>
          if truthy err then None
          else
            (case Get result ''articles'' of
               Inr (JArr arts) \<Rightarrow>
                 if arts = [] then None
                 else (case Array_map render_article arts of
                         Inl e \<Rightarrow> None
                       | Inr rows \<Rightarrow> Some rows)
             | _ \<Rightarrow> None))"

text \<open>What a run leaves in the table, by the outcome of its \<^verbatim>\<open>try\<close> block.\<close>

definition rows_after :: "js_error option \<times> page \<Rightarrow> string list" where
  "rows_after x = (case x of (None, p') \<Rightarrow> newsBody_rows p' | (Some e, p') \<Rightarrow> [])"

text \<open>
  A date string is the current calendar date in IST: the current instant lies in the
  24 hours that start at its midnight in UTC+05:30.
\<close>

definition is_today_IST :: "env \<Rightarrow> string \<Rightarrow> bool" where
  "is_today_IST E date =
     (case Date_parse (Date_rollover E) (date @ ''T00:00:00+05:30'') of
        None \<Rightarrow> False
      | Some t \<Rightarrow> t \<le> clock_now E \<and> clock_now E < t + 86400000)"

section \<open>Example runs\<close>

text \<open>
  Bodies with the values \<^verbatim>\<open>JSON.parse\<close> gives for them, a platform that answers every
  request with one outcome at one instant, and a page that already shows a row.
\<close>

definition example_bodies :: "(string \<times> jsval) list" where
  \<open>example_bodies =
     [(''{"error":"rate limited"}'', JObj [(''error'', JStr ''rate limited'')]),
      (''{"error":"bad input"}'', JObj [(''error'', JStr ''bad input'')]),
      (''{"articles":[],"is_mock":false}'',
         JObj [(''articles'', JArr []), (''is_mock'', JBool False)]),
      (''{"articles":[{"title":"A","url":"http://x","category":"Sports","source":{"name":"S"},"publishedAt":"2024-01-01","related_articles":[]}],"is_mock":false}'',
         JObj [(''articles'',
                JArr [JObj [(''title'', JStr ''A''), (''url'', JStr ''http://x''),
                            (''category'', JStr ''Sports''),
                            (''source'', JObj [(''name'', JStr ''S'')]),
                            (''publishedAt'', JStr ''2024-01-01''),
                            (''related_articles'', JArr [])]]),
               (''is_mock'', JBool False)]),
      (''{"articles":[{"title":"A","url":"http://x","category":"Sports","source":{"name":"S"},"publishedAt":"2024-01-01","related_articles":[{"title":"R","url":"http://r","source":{"name":"T"},"publishedAt":"2024-01-02"},{}]},{}],"is_mock":false}'',
         JObj [(''articles'',
                JArr [JObj [(''title'', JStr ''A''), (''url'', JStr ''http://x''),
                            (''category'', JStr ''Sports''),
                            (''source'', JObj [(''name'', JStr ''S'')]),
                            (''publishedAt'', JStr ''2024-01-01''),
                            (''related_articles'',
                             JArr [JObj [(''title'', JStr ''R''), (''url'', JStr ''http://r''),
                                         (''source'', JObj [(''name'', JStr ''T'')]),
                                         (''publishedAt'', JStr ''2024-01-02'')],
                                   JObj []])],
                      JObj []]),
               (''is_mock'', JBool False)]),
      (''{"articles":[{"title":{"toString":"x"}}]}'',
         JObj [(''articles'', JArr [JObj [(''title'', JObj [(''toString'', JStr ''x'')])]])]),
      (''{"error":{"toString":"x"}}'', JObj [(''error'', JObj [(''toString'', JStr ''x'')])]),
      (''{"success":false,"message":{"toString":"x"}}'',
         JObj [(''success'', JBool False), (''message'', JObj [(''toString'', JStr ''x'')])]),
      (''{"success":true}'', JObj [(''success'', JBool True)]),
      (''{"success":false,"message":"bad creds"}'',
         JObj [(''success'', JBool False), (''message'', JStr ''bad creds'')]),
      (''{"success":false,"message":""}'',
         JObj [(''success'', JBool False), (''message'', JStr [])])]\<close>

definition example_env :: "int \<Rightarrow> js_error + response \<Rightarrow> env" where
  "example_env now outcome =
     \<lparr>clock_now = now,
      fetch = (\<lambda>req. outcome),
      JSON_parse = (\<lambda>s. case map_of example_bodies s of
                            None \<Rightarrow> Inl ''Unexpected token''
                          | Some v \<Rightarrow> Inr v),
      TypeError_message = (\<lambda>f. case f of
                                   BodyAlreadyRead \<Rightarrow> ''body stream already read''
                                 | ReadOfNullish v k \<Rightarrow> ''Cannot read properties''
                                 | NotCallable k \<Rightarrow> ''not a function''
                                 | NotPrimitive \<Rightarrow>
                                     ''Cannot convert object to primitive value''),
      Date_rollover = False\<rparr>"

text \<open>Noon of 15 January 2024 in IST, in milliseconds since the epoch.\<close>

definition example_noon :: int where
  "example_noon = 1705300200000"

definition example_page :: "string \<Rightarrow> string \<Rightarrow> page" where
  "example_page district date =
     \<lparr>district_value = district,
      date_value = date,
      errorMessage_textContent = [],
      newsBody_rows = [''<td>yesterday</td>''],
      downloadButton_display = ''block'',
      downloadButton_onclick = Some (JArr [JObj [(''title'', JStr ''Y'')]], ''Pune'', ''2024-01-13''),
      body_children = [],
      object_urls = [],
      next_object_url = 0,
      downloads = [],
      requests = []\<rparr>"


section \<open>The handler after validation\<close>

lemma fetch_news_click_validated:
  "validated E p \<Longrightarrow>
   fetch_news_click E p =
     (case fetch_news_try E (district_value p) (date_value p) p of
        (Some error, p') \<Rightarrow> fetch_news_catch E error p'
      | (None, p') \<Rightarrow> p')"
  by (simp add: validated_def fetch_news_click_def Let_def)

lemma fetch_news_try_parsed:
  "fetch E (FetchNews d dt) = Inr r \<Longrightarrow> ok r \<Longrightarrow> JSON_parse E (read_text r) = Inr result \<Longrightarrow>
   fetch_news_try E d dt p =
     handle_result d dt result
       (p\<lparr>errorMessage_textContent := ''Fetching news...'',
          requests := requests p @ [FetchNews d dt]\<rparr>)"
  by (simp add: fetch_news_try_def Let_def)

lemma fetch_news_click_parsed:
  assumes "validated E p"
    and "fetch E (FetchNews (district_value p) (date_value p)) = Inr r"
    and "ok r"
    and "JSON_parse E (read_text r) = Inr result"
  shows "fetch_news_click E p =
           (case handle_result (district_value p) (date_value p) result
                   (p\<lparr>errorMessage_textContent := ''Fetching news...'',
                      requests := requests p @ [FetchNews (district_value p) (date_value p)]\<rparr>) of
              (Some error, p') \<Rightarrow> fetch_news_catch E error p'
            | (None, p') \<Rightarrow> p')"
  using assms by (simp add: fetch_news_click_validated fetch_news_try_parsed)

text \<open>The only error a conversion to a string throws.\<close>

lemma ToString_throws:
  "ToString v = Inl e \<Longrightarrow> e = EngineTypeError NotPrimitive"
  "ToString_elements vs = Inl e \<Longrightarrow> e = EngineTypeError NotPrimitive"
  by (induction v and vs rule: ToString_ToString_elements.induct)
    (auto split: sum.splits if_splits jsval.splits)

lemmas Date_defs =
  dateRegex_test_def is_digit_def Date_gt_def Date_parse_def number_of_def digit_val_def
  MakeDay_def MakeTime_def DayFromYear_def DaysBeforeMonth_def DaysInMonth_def
  InLeapYear_def TimeClip_def

lemma example_validated:
  "validated (example_env example_noon outcome) (example_page ''Pune'' ''2024-01-14'')"
  by (simp add: validated_def example_env_def example_page_def example_noon_def Date_defs)

section \<open>Input validation\<close>

text \<open>
  C4. The checks run in order and the first failure wins: an empty district gives
  \<^verbatim>\<open>Please select a district\<close>; otherwise an empty date gives
  \<^verbatim>\<open>Please select a date\<close>; otherwise a date that does not match the pattern gives
  \<^verbatim>\<open>Invalid date format (use YYYY-MM-DD)\<close>. In each case only the status line
  changes, and no request is issued.
\<close>

theorem validation_first_failure_wins:
  "(district_value p = [] \<longrightarrow>
      fetch_news_click E p = p\<lparr>errorMessage_textContent := ''Please select a district''\<rparr>) \<and>
   (district_value p \<noteq> [] \<and> date_value p = [] \<longrightarrow>
      fetch_news_click E p = p\<lparr>errorMessage_textContent := ''Please select a date''\<rparr>) \<and>
   (district_value p \<noteq> [] \<and> date_value p \<noteq> [] \<and> \<not> dateRegex_test (date_value p) \<longrightarrow>
      fetch_news_click E p =
        p\<lparr>errorMessage_textContent := ''Invalid date format (use YYYY-MM-DD)''\<rparr>) \<and>
   (district_value p = [] \<or> date_value p = [] \<or> \<not> dateRegex_test (date_value p) \<longrightarrow>
      requests (fetch_news_click E p) = requests p)"
  by (auto simp add: fetch_news_click_def Let_def)

theorem validation_first_failure_wins_witness:
  "fetch_news_click (example_env example_noon (Inl (Thrown ''TypeError'' ''Failed to fetch'')))
     (example_page [] ''2024-01-14'') =
     (example_page [] ''2024-01-14'')\<lparr>errorMessage_textContent := ''Please select a district''\<rparr> \<and>
   fetch_news_click (example_env example_noon (Inl (Thrown ''TypeError'' ''Failed to fetch'')))
     (example_page ''Pune'' []) =
     (example_page ''Pune'' [])\<lparr>errorMessage_textContent := ''Please select a date''\<rparr> \<and>
   fetch_news_click (example_env example_noon (Inl (Thrown ''TypeError'' ''Failed to fetch'')))
     (example_page ''Pune'' ''14/01/2024'') =
     (example_page ''Pune'' ''14/01/2024'')\<lparr>errorMessage_textContent :=
        ''Invalid date format (use YYYY-MM-DD)''\<rparr> \<and>
   requests (fetch_news_click (example_env example_noon (Inl (Thrown ''TypeError'' ''Failed to fetch'')))
     (example_page ''Pune'' ''14/01/2024'')) = []"
proof -
  let ?E = "example_env example_noon (Inl (Thrown ''TypeError'' ''Failed to fetch''))"
  have d: "district_value (example_page [] ''2024-01-14'') = []"
    by (simp add: example_page_def)
  have t: "district_value (example_page ''Pune'' []) \<noteq> [] \<and> date_value (example_page ''Pune'' []) = []"
    by (simp add: example_page_def)
  have f: "district_value (example_page ''Pune'' ''14/01/2024'') \<noteq> [] \<and>
           date_value (example_page ''Pune'' ''14/01/2024'') \<noteq> [] \<and>
           \<not> dateRegex_test (date_value (example_page ''Pune'' ''14/01/2024''))"
    by (simp add: example_page_def dateRegex_test_def)
  have r: "requests (example_page ''Pune'' ''14/01/2024'') = []"
    by (simp add: example_page_def)
  from d t f r show ?thesis
    using validation_first_failure_wins [of "example_page [] ''2024-01-14''" ?E]
      validation_first_failure_wins [of "example_page ''Pune'' []" ?E]
      validation_first_failure_wins [of "example_page ''Pune'' ''14/01/2024''" ?E]
    by simp
qed

section \<open>A 2xx body that is not JSON\<close>

text \<open>
  C10. When the response is 2xx and \<^verbatim>\<open>JSON.parse\<close> throws on its body, the handler's
  \<^verbatim>\<open>catch\<close> takes the error: the rows are cleared, the download button is hidden and
  the status line is \<^verbatim>\<open>Error: \<close> followed by the parse error's message. The handler
  returns a page; nothing escapes it.
\<close>

theorem parse_failure_is_caught:
  assumes "validated E p"
    and "fetch E (FetchNews (district_value p) (date_value p)) = Inr r"
    and "ok r"
    and "JSON_parse E (read_text r) = Inl m"
  shows "fetch_news_click E p =
           p\<lparr>errorMessage_textContent := ''Error: '' @ m,
             newsBody_rows := [],
             downloadButton_display := ''none'',
             requests := requests p @ [FetchNews (district_value p) (date_value p)]\<rparr>"
  using assms
  by (simp add: fetch_news_click_validated fetch_news_try_def fetch_news_catch_def Let_def)

theorem parse_failure_is_caught_witness:
  "fetch_news_click
     (example_env example_noon (Inr \<lparr>ok = True, body = Some (Inr ''<html>Bad gateway</html>'')\<rparr>))
     (example_page ''Pune'' ''2024-01-14'') =
   (example_page ''Pune'' ''2024-01-14'')
     \<lparr>errorMessage_textContent := ''Error: Unexpected token'',
      newsBody_rows := [],
      downloadButton_display := ''none'',
      requests := [FetchNews ''Pune'' ''2024-01-14'']\<rparr>"
proof -
  let ?r = "\<lparr>ok = True, body = Some (Inr ''<html>Bad gateway</html>'')\<rparr>"
  let ?E = "example_env example_noon (Inr ?r)"
  let ?p = "example_page ''Pune'' ''2024-01-14''"
  have v: "validated ?E ?p"
    by (rule example_validated)
  have f: "fetch ?E (FetchNews (district_value ?p) (date_value ?p)) = Inr ?r"
    by (simp add: example_env_def)
  have k: "ok ?r"
    by simp
  have j: "JSON_parse ?E (read_text ?r) = Inl ''Unexpected token''"
    by (simp add: example_env_def example_bodies_def read_text_def consume_body_def body_text_def)
  show ?thesis
    using parse_failure_is_caught [OF v f k j] by (simp add: example_page_def)
qed

section \<open>A response that is not 2xx\<close>

lemma fetch_news_click_not_ok:
  assumes "validated E p"
    and "fetch E (FetchNews (district_value p) (date_value p)) = Inr r"
    and "\<not> ok r"
  shows "fetch_news_click E p =
           fetch_news_catch E (new_Error (fetch_userMessage E (read_text r)))
             (p\<lparr>requests := requests p @ [FetchNews (district_value p) (date_value p)]\<rparr>)"
  using assms
  by (simp add: fetch_news_click_validated fetch_news_try_def fetch_news_catch_def Let_def)

text \<open>
  C2, as amended. For a response that is not 2xx and whose body parses as JSON with a
  non-empty string as its \<^verbatim>\<open>error\<close> field, the status line is \<^verbatim>\<open>Error: \<close>
  followed by that string: the handler throws the server's text as an \<^verbatim>\<open>Error\<close>,
  and its \<^verbatim>\<open>catch\<close> puts the prefix in front of every message it shows.
\<close>

theorem non_ok_error_is_prefixed:
  assumes "validated E p"
    and "fetch E (FetchNews (district_value p) (date_value p)) = Inr r"
    and "\<not> ok r"
    and "JSON_parse E (read_text r) = Inr errorData"
    and "Get errorData ''error'' = Inr (JStr msg)"
    and "msg \<noteq> []"
  shows "fetch_news_click E p =
           p\<lparr>errorMessage_textContent := ''Error: '' @ msg,
             newsBody_rows := [],
             downloadButton_display := ''none'',
             requests := requests p @ [FetchNews (district_value p) (date_value p)]\<rparr>"
  using assms
  by (simp add: fetch_news_click_not_ok fetch_userMessage_def new_Error_def
      fetch_news_catch_def)

lemma example_rate_limited:
  "JSON_parse (example_env now outcome)
     (read_text \<lparr>ok = b, body = Some (Inr ''{\"error\":\"rate limited\"}'')\<rparr>) =
   Inr (JObj [(''error'', JStr ''rate limited'')])"
  by (simp add: example_env_def example_bodies_def read_text_def consume_body_def body_text_def)


theorem non_ok_error_is_prefixed_witness:
  \<open>fetch_news_click
     (example_env example_noon (Inr \<lparr>ok = False, body = Some (Inr ''{"error":"rate limited"}'')\<rparr>))
     (example_page ''Pune'' ''2024-01-14'') =
   (example_page ''Pune'' ''2024-01-14'')
     \<lparr>errorMessage_textContent := ''Error: rate limited'',
      newsBody_rows := [],
      downloadButton_display := ''none'',
      requests := [FetchNews ''Pune'' ''2024-01-14'']\<rparr>\<close>
proof -
  let ?r = \<open>\<lparr>ok = False, body = Some (Inr ''{"error":"rate limited"}'')\<rparr>\<close>
  let ?E = "example_env example_noon (Inr ?r)"
  let ?p = "example_page ''Pune'' ''2024-01-14''"
  have v: "validated ?E ?p"
    by (rule example_validated)
  have f: "fetch ?E (FetchNews (district_value ?p) (date_value ?p)) = Inr ?r"
    by (simp add: example_env_def)
  have k: "\<not> ok ?r"
    by simp
  have j: "JSON_parse ?E (read_text ?r) = Inr (JObj [(''error'', JStr ''rate limited'')])"
    by (rule example_rate_limited)
  have g: "Get (JObj [(''error'', JStr ''rate limited'')]) ''error'' = Inr (JStr ''rate limited'')"
    by simp
  have n: "''rate limited'' \<noteq> []"
    by simp
  show ?thesis
    using non_ok_error_is_prefixed [OF v f k j g n] by (simp add: example_page_def)
qed

text \<open>
  The body \<^verbatim>\<open>{"error":"rate limited"}\<close> with a status that is not 2xx: the status
  line is \<^verbatim>\<open>Error: rate limited\<close>, not \<^verbatim>\<open>rate limited\<close>.
\<close>

theorem rate_limited_counterexample:
  \<open>errorMessage_textContent
     (fetch_news_click
        (example_env example_noon (Inr \<lparr>ok = False, body = Some (Inr ''{"error":"rate limited"}'')\<rparr>))
        (example_page ''Pune'' ''2024-01-14'')) = ''Error: rate limited'' \<and>
   errorMessage_textContent
     (fetch_news_click
        (example_env example_noon (Inr \<lparr>ok = False, body = Some (Inr ''{"error":"rate limited"}'')\<rparr>))
        (example_page ''Pune'' ''2024-01-14'')) \<noteq> ''rate limited''\<close>
proof -
  let ?r = \<open>\<lparr>ok = False, body = Some (Inr ''{"error":"rate limited"}'')\<rparr>\<close>
  let ?E = "example_env example_noon (Inr ?r)"
  let ?p = "example_page ''Pune'' ''2024-01-14''"
  have f: "fetch ?E (FetchNews (district_value ?p) (date_value ?p)) = Inr ?r"
    by (simp add: example_env_def)
  have k: "\<not> ok ?r"
    by simp
  have m: "new_Error (fetch_userMessage ?E (read_text ?r)) = Thrown ''Error'' ''rate limited''"
    by (simp add: fetch_userMessage_def new_Error_def example_rate_limited)
  have "errorMessage_textContent (fetch_news_click ?E ?p) = ''Error: rate limited''"
    by (simp add: fetch_news_click_not_ok [OF example_validated f k] m fetch_news_catch_def)
  then show ?thesis
    by simp
qed

section \<open>A 2xx result with an error or without articles\<close>

text \<open>
  C5, as amended. For a 2xx response whose parsed body has a truthy \<^verbatim>\<open>error\<close> that
  converts to a string, the status line is \<^verbatim>\<open>Server error: \<close> followed by that
  string, the rows are cleared and the download button is hidden; nothing else changes,
  so the handler stopped there. When the error is truthy and its conversion throws (an
  object with an own \<^verbatim>\<open>toString\<close> property), the throw of line 67 goes to the
  handler's \<^verbatim>\<open>catch\<close>: the status line is \<^verbatim>\<open>Error: \<close> followed by the engine's
  message, with the same clearing. When the error is not truthy and \<^verbatim>\<open>articles\<close>
  is absent or the empty array, the status line is
  \<^verbatim>\<open>No articles found for the selected district and date.\<close>, with the same clearing.
\<close>

theorem result_error_or_no_articles_stops:
  assumes "validated E p"
    and "fetch E (FetchNews (district_value p) (date_value p)) = Inr r"
    and "ok r"
    and "JSON_parse E (read_text r) = Inr result"
    and "Get result ''error'' = Inr err"
  shows "(truthy err \<and> ToString err = Inr error_text \<longrightarrow>
            fetch_news_click E p =
              p\<lparr>errorMessage_textContent := ''Server error: '' @ error_text,
                newsBody_rows := [],
                downloadButton_display := ''none'',
                requests := requests p @ [FetchNews (district_value p) (date_value p)]\<rparr>) \<and>
         (truthy err \<and> ToString err = Inl e \<longrightarrow>
            fetch_news_click E p =
              p\<lparr>errorMessage_textContent := ''Error: '' @ TypeError_message E NotPrimitive,
                newsBody_rows := [],
                downloadButton_display := ''none'',
                requests := requests p @ [FetchNews (district_value p) (date_value p)]\<rparr>) \<and>
         (\<not> truthy err \<and>
          (Get result ''articles'' = Inr JUndefined \<or> Get result ''articles'' = Inr (JArr [])) \<longrightarrow>
            fetch_news_click E p =
              p\<lparr>errorMessage_textContent :=
                  ''No articles found for the selected district and date.'',
                newsBody_rows := [],
                downloadButton_display := ''none'',
                requests := requests p @ [FetchNews (district_value p) (date_value p)]\<rparr>)"
proof (intro conjI impI)
  assume "truthy err \<and> ToString err = Inr error_text"
  with assms show "fetch_news_click E p =
      p\<lparr>errorMessage_textContent := ''Server error: '' @ error_text,
        newsBody_rows := [],
        downloadButton_display := ''none'',
        requests := requests p @ [FetchNews (district_value p) (date_value p)]\<rparr>"
    by (simp add: fetch_news_click_parsed handle_result_def)
next
  assume t: "truthy err \<and> ToString err = Inl e"
  then have "e = EngineTypeError NotPrimitive"
    using ToString_throws(1) by blast
  with t assms show "fetch_news_click E p =
      p\<lparr>errorMessage_textContent := ''Error: '' @ TypeError_message E NotPrimitive,
        newsBody_rows := [],
        downloadButton_display := ''none'',
        requests := requests p @ [FetchNews (district_value p) (date_value p)]\<rparr>"
    by (simp add: fetch_news_click_parsed handle_result_def fetch_news_catch_def)
next
  assume "\<not> truthy err \<and>
    (Get result ''articles'' = Inr JUndefined \<or> Get result ''articles'' = Inr (JArr []))"
  with assms show "fetch_news_click E p =
      p\<lparr>errorMessage_textContent := ''No articles found for the selected district and date.'',
        newsBody_rows := [],
        downloadButton_display := ''none'',
        requests := requests p @ [FetchNews (district_value p) (date_value p)]\<rparr>"
    by (auto simp add: fetch_news_click_parsed handle_result_def no_articles_def
        strict_eq_zero_def)
qed

lemma example_error_object:
  \<open>JSON_parse (example_env now outcome)
     (read_text \<lparr>ok = b, body = Some (Inr ''{"error":{"toString":"x"}}'')\<rparr>) =
   Inr (JObj [(''error'', JObj [(''toString'', JStr ''x'')])])\<close>
  by (simp add: example_env_def example_bodies_def read_text_def consume_body_def body_text_def)

theorem result_error_or_no_articles_stops_witness:
  \<open>fetch_news_click
     (example_env example_noon (Inr \<lparr>ok = True, body = Some (Inr ''{"error":"rate limited"}'')\<rparr>))
     (example_page ''Pune'' ''2024-01-14'') =
   (example_page ''Pune'' ''2024-01-14'')
     \<lparr>errorMessage_textContent := ''Server error: rate limited'',
      newsBody_rows := [],
      downloadButton_display := ''none'',
      requests := [FetchNews ''Pune'' ''2024-01-14'']\<rparr> \<and>
   fetch_news_click
     (example_env example_noon (Inr \<lparr>ok = True, body = Some (Inr ''{"error":{"toString":"x"}}'')\<rparr>))
     (example_page ''Pune'' ''2024-01-14'') =
   (example_page ''Pune'' ''2024-01-14'')
     \<lparr>errorMessage_textContent := ''Error: Cannot convert object to primitive value'',
      newsBody_rows := [],
      downloadButton_display := ''none'',
      requests := [FetchNews ''Pune'' ''2024-01-14'']\<rparr> \<and>
   fetch_news_click
     (example_env example_noon (Inr \<lparr>ok = True, body = Some (Inr ''{"articles":[],"is_mock":false}'')\<rparr>))
     (example_page ''Pune'' ''2024-01-14'') =
   (example_page ''Pune'' ''2024-01-14'')
     \<lparr>errorMessage_textContent := ''No articles found for the selected district and date.'',
      newsBody_rows := [],
      downloadButton_display := ''none'',
      requests := [FetchNews ''Pune'' ''2024-01-14'']\<rparr>\<close>
proof -
  let ?r1 = \<open>\<lparr>ok = True, body = Some (Inr ''{"error":"rate limited"}'')\<rparr>\<close>
  let ?r2 = \<open>\<lparr>ok = True, body = Some (Inr ''{"articles":[],"is_mock":false}'')\<rparr>\<close>
  let ?r3 = \<open>\<lparr>ok = True, body = Some (Inr ''{"error":{"toString":"x"}}'')\<rparr>\<close>
  let ?E1 = "example_env example_noon (Inr ?r1)"
  let ?E2 = "example_env example_noon (Inr ?r2)"
  let ?E3 = "example_env example_noon (Inr ?r3)"
  let ?p = "example_page ''Pune'' ''2024-01-14''"
  let ?v2 = "JObj [(''articles'', JArr []), (''is_mock'', JBool False)]"
  let ?v3 = "JObj [(''error'', JObj [(''toString'', JStr ''x'')])]"
  have f1: "fetch ?E1 (FetchNews (district_value ?p) (date_value ?p)) = Inr ?r1"
    by (simp add: example_env_def)
  have f2: "fetch ?E2 (FetchNews (district_value ?p) (date_value ?p)) = Inr ?r2"
    by (simp add: example_env_def)
  have f3: "fetch ?E3 (FetchNews (district_value ?p) (date_value ?p)) = Inr ?r3"
    by (simp add: example_env_def)
  have j1: "JSON_parse ?E1 (read_text ?r1) = Inr (JObj [(''error'', JStr ''rate limited'')])"
    by (rule example_rate_limited)
  have j2: "JSON_parse ?E2 (read_text ?r2) = Inr ?v2"
    by (simp add: example_env_def example_bodies_def read_text_def consume_body_def body_text_def)
  have j3: "JSON_parse ?E3 (read_text ?r3) = Inr ?v3"
    by (rule example_error_object)
  have g1: "Get (JObj [(''error'', JStr ''rate limited'')]) ''error'' = Inr (JStr ''rate limited'')"
    by simp
  have g2: "Get ?v2 ''error'' = Inr JUndefined"
    by simp
  have g3: "Get ?v3 ''error'' = Inr (JObj [(''toString'', JStr ''x'')])"
    by simp
  have a2: "Get ?v2 ''articles'' = Inr (JArr [])"
    by simp
  have t1: "truthy (JStr ''rate limited'') \<and> ToString (JStr ''rate limited'') = Inr ''rate limited''"
    by simp
  have t3: "truthy (JObj [(''toString'', JStr ''x'')]) \<and>
            ToString (JObj [(''toString'', JStr ''x'')]) = Inl (EngineTypeError NotPrimitive)"
    by simp
  have m: "TypeError_message ?E3 NotPrimitive = ''Cannot convert object to primitive value''"
    by (simp add: example_env_def)
  have k1: "ok ?r1" and k2: "ok ?r2" and k3: "ok ?r3"
    by simp_all
  have 1: "fetch_news_click ?E1 ?p =
      ?p\<lparr>errorMessage_textContent := ''Server error: '' @ ''rate limited'',
         newsBody_rows := [],
         downloadButton_display := ''none'',
         requests := requests ?p @ [FetchNews (district_value ?p) (date_value ?p)]\<rparr>"
    using result_error_or_no_articles_stops [OF example_validated f1 k1 j1 g1] t1 by blast
  have 2: "fetch_news_click ?E2 ?p =
      ?p\<lparr>errorMessage_textContent := ''No articles found for the selected district and date.'',
         newsBody_rows := [],
         downloadButton_display := ''none'',
         requests := requests ?p @ [FetchNews (district_value ?p) (date_value ?p)]\<rparr>"
    using result_error_or_no_articles_stops [OF example_validated f2 k2 j2 g2] a2 by simp
  have 3: "fetch_news_click ?E3 ?p =
      ?p\<lparr>errorMessage_textContent := ''Error: '' @ TypeError_message ?E3 NotPrimitive,
         newsBody_rows := [],
         downloadButton_display := ''none'',
         requests := requests ?p @ [FetchNews (district_value ?p) (date_value ?p)]\<rparr>"
    using result_error_or_no_articles_stops [OF example_validated f3 k3 j3 g3] t3 by blast
  show ?thesis
    by (simp add: 1 2 3 m) (simp add: example_page_def)
qed

text \<open>
  The 2xx body \<^verbatim>\<open>{"error":{"toString":"x"}}\<close>: the \<^verbatim>\<open>error\<close> field is truthy, and
  the status line is that of the \<^verbatim>\<open>catch\<close>, not \<^verbatim>\<open>Server error: \<close> and the error.
\<close>

theorem server_error_conversion_counterexample:
  \<open>truthy (JObj [(''toString'', JStr ''x'')]) \<and>
   errorMessage_textContent
     (fetch_news_click
        (example_env example_noon (Inr \<lparr>ok = True, body = Some (Inr ''{"error":{"toString":"x"}}'')\<rparr>))
        (example_page ''Pune'' ''2024-01-14'')) =
     ''Error: Cannot convert object to primitive value''\<close>
proof -
  let ?r = \<open>\<lparr>ok = True, body = Some (Inr ''{"error":{"toString":"x"}}'')\<rparr>\<close>
  let ?E = "example_env example_noon (Inr ?r)"
  let ?p = "example_page ''Pune'' ''2024-01-14''"
  have f: "fetch ?E (FetchNews (district_value ?p) (date_value ?p)) = Inr ?r"
    by (simp add: example_env_def)
  have k: "ok ?r"
    by simp
  have m: "TypeError_message ?E NotPrimitive = ''Cannot convert object to primitive value''"
    by (simp add: example_env_def)
  have "errorMessage_textContent (fetch_news_click ?E ?p) =
      ''Error: Cannot convert object to primitive value''"
    by (simp add: fetch_news_click_parsed [OF example_validated f k example_error_object]
        handle_result_def fetch_news_catch_def m)
  then show ?thesis
    by simp
qed

section \<open>The future-date check\<close>

lemma forEach_article_requests:
  "requests (snd (forEach_article arts p)) = requests p"
  by (induction arts arbitrary: p) (auto split: sum.splits)

lemma render_articles_requests:
  "requests (snd (render_articles d dt articles len p)) = requests p"
proof (cases articles)
  case (JArr arts)
  have "requests (snd (forEach_article arts (p\<lparr>newsBody_rows := []\<rparr>))) = requests p"
    by (simp add: forEach_article_requests)
  with JArr show ?thesis
    by (auto simp add: render_articles_def Let_def split: prod.splits option.splits)
qed (simp_all add: render_articles_def)

lemma handle_result_requests:
  "requests (snd (handle_result d dt result p)) = requests p"
  by (simp add: handle_result_def no_articles_def render_articles_requests split: sum.splits)

lemma fetch_news_try_requests:
  "requests (snd (fetch_news_try E d dt p)) = requests p @ [FetchNews d dt]"
  by (simp add: fetch_news_try_def Let_def handle_result_requests split: sum.splits)

lemma fetch_news_click_requests:
  assumes "validated E p"
  shows "requests (fetch_news_click E p) =
           requests p @ [FetchNews (district_value p) (date_value p)]"
proof -
  obtain err p' where t: "fetch_news_try E (district_value p) (date_value p) p = (err, p')"
    by (cases "fetch_news_try E (district_value p) (date_value p) p")
  then have "requests p' = requests p @ [FetchNews (district_value p) (date_value p)]"
    using fetch_news_try_requests [of E "district_value p" "date_value p" p] by simp
  with t assms show ?thesis
    by (cases err) (simp_all add: fetch_news_click_validated fetch_news_catch_def)
qed

lemma dateRegex_test_nonempty: "dateRegex_test s \<Longrightarrow> s \<noteq> []"
  by (auto simp add: dateRegex_test_def)

text \<open>
  C1, as amended. For a non-empty district and a date of the form YYYY-MM-DD, the handler
  stops with \<^verbatim>\<open>Date cannot be in the future\<close>, changing only the status line and
  issuing no request, exactly when the date string with \<^verbatim>\<open>T23:59:59+05:30\<close>
  appended denotes an instant that is strictly after the current one; in every other
  case the request to \<^verbatim>\<open>/fetch_news\<close> is issued.
\<close>

theorem future_date_rejected_iff:
  assumes "district_value p \<noteq> []"
    and "dateRegex_test (date_value p)"
  shows "(fetch_news_click E p = p\<lparr>errorMessage_textContent := ''Date cannot be in the future''\<rparr>
            \<longleftrightarrow>
          (\<exists>t. Date_parse (Date_rollover E) (date_value p @ ''T23:59:59+05:30'') = Some t \<and>
               clock_now E < t)) \<and>
         ((\<nexists>t. Date_parse (Date_rollover E) (date_value p @ ''T23:59:59+05:30'') = Some t \<and>
               clock_now E < t) \<longrightarrow>
          requests (fetch_news_click E p) =
            requests p @ [FetchNews (district_value p) (date_value p)])"
proof (cases "Date_gt (Date_parse (Date_rollover E) (date_value p @ ''T23:59:59+05:30'')) (clock_now E)")
  case True
  then have "\<exists>t. Date_parse (Date_rollover E) (date_value p @ ''T23:59:59+05:30'') = Some t \<and>
               clock_now E < t"
    by (simp add: Date_gt_def split: option.splits)
  moreover have "fetch_news_click E p = p\<lparr>errorMessage_textContent := ''Date cannot be in the future''\<rparr>"
    using assms True by (simp add: fetch_news_click_def Let_def dateRegex_test_nonempty)
  ultimately show ?thesis
    by simp
next
  case False
  then have n: "\<nexists>t. Date_parse (Date_rollover E) (date_value p @ ''T23:59:59+05:30'') = Some t \<and>
               clock_now E < t"
    by (auto simp add: Date_gt_def)
  from assms False have "validated E p"
    by (simp add: validated_def dateRegex_test_nonempty)
  then have r: "requests (fetch_news_click E p) =
      requests p @ [FetchNews (district_value p) (date_value p)]"
    by (rule fetch_news_click_requests)
  then have "requests (fetch_news_click E p) \<noteq> requests p"
    by simp
  then have "fetch_news_click E p \<noteq> p\<lparr>errorMessage_textContent := ''Date cannot be in the future''\<rparr>"
    by auto
  with n r show ?thesis
    by simp
qed

theorem future_date_rejected_iff_witness:
  "fetch_news_click (example_env example_noon (Inl (Thrown ''TypeError'' ''Failed to fetch'')))
     (example_page ''Pune'' ''2024-01-16'') =
   (example_page ''Pune'' ''2024-01-16'')
     \<lparr>errorMessage_textContent := ''Date cannot be in the future''\<rparr> \<and>
   requests
     (fetch_news_click (example_env example_noon (Inl (Thrown ''TypeError'' ''Failed to fetch'')))
        (example_page ''Pune'' ''2024-01-14'')) = [FetchNews ''Pune'' ''2024-01-14'']"
proof -
  let ?E = "example_env example_noon (Inl (Thrown ''TypeError'' ''Failed to fetch''))"
  let ?p = "example_page ''Pune'' ''2024-01-16''"
  let ?q = "example_page ''Pune'' ''2024-01-14''"
  have d: "district_value ?p \<noteq> []" "district_value ?q \<noteq> []"
    by (simp_all add: example_page_def)
  have g: "dateRegex_test (date_value ?p)" "dateRegex_test (date_value ?q)"
    by (simp_all add: example_page_def dateRegex_test_def is_digit_def)
  have later: "Date_parse (Date_rollover ?E) (date_value ?p @ ''T23:59:59+05:30'') = Some 1705429799000 \<and>
               clock_now ?E < 1705429799000"
    by (simp add: example_env_def example_page_def example_noon_def Date_defs)
  have earlier: "Date_parse (Date_rollover ?E) (date_value ?q @ ''T23:59:59+05:30'') = Some 1705256999000 \<and>
               \<not> clock_now ?E < 1705256999000"
    by (simp add: example_env_def example_page_def example_noon_def Date_defs)
  from later have 1: "fetch_news_click ?E ?p = ?p\<lparr>errorMessage_textContent := ''Date cannot be in the future''\<rparr>"
    using future_date_rejected_iff [OF d(1) g(1), of ?E] by blast
  from earlier have 2: "requests (fetch_news_click ?E ?q) = requests ?q @ [FetchNews (district_value ?q) (date_value ?q)]"
    using future_date_rejected_iff [OF d(2) g(2), of ?E] by auto
  from 1 2 show ?thesis
    by (simp add: example_page_def)
qed

text \<open>
  At noon of 15 January 2024 in IST, the date 2024-01-15 is the current calendar date
  in IST, and the handler stops with \<^verbatim>\<open>Date cannot be in the future\<close> without a
  request.
\<close>

theorem today_is_rejected_counterexample:
  "is_today_IST (example_env example_noon (Inl (Thrown ''TypeError'' ''Failed to fetch'')))
     ''2024-01-15'' \<and>
   fetch_news_click (example_env example_noon (Inl (Thrown ''TypeError'' ''Failed to fetch'')))
     (example_page ''Pune'' ''2024-01-15'') =
   (example_page ''Pune'' ''2024-01-15'')
     \<lparr>errorMessage_textContent := ''Date cannot be in the future''\<rparr> \<and>
   requests
     (fetch_news_click (example_env example_noon (Inl (Thrown ''TypeError'' ''Failed to fetch'')))
        (example_page ''Pune'' ''2024-01-15'')) = []"
  by (simp add: is_today_IST_def fetch_news_click_def Let_def example_env_def example_page_def
      example_noon_def Date_defs)

section \<open>The rows after a click\<close>

lemma forEach_article_rendered:
  "Array_map render_article arts = Inr rows \<Longrightarrow>
   forEach_article arts p = (None, p\<lparr>newsBody_rows := newsBody_rows p @ rows\<rparr>)"
  by (induction arts arbitrary: p rows) (auto split: sum.splits)

lemma forEach_article_thrown:
  "Array_map render_article arts = Inl e \<Longrightarrow> fst (forEach_article arts p) = Some e"
  by (induction arts arbitrary: p) (auto split: sum.splits)

lemma render_articles_rows:
  "Array_map render_article arts = Inr rows \<Longrightarrow>
   render_articles d dt (JArr arts) len p =
     (None, p\<lparr>newsBody_rows := rows,
              downloadButton_display := (if truthy len then ''block'' else ''none''),
              downloadButton_onclick := Some (JArr arts, d, dt)\<rparr>)"
  by (simp add: render_articles_def forEach_article_rendered)

lemma render_articles_thrown:
  "Array_map render_article arts = Inl e \<Longrightarrow>
   fst (render_articles d dt (JArr arts) len p) = Some e"
  using forEach_article_thrown [of arts e "p\<lparr>newsBody_rows := []\<rparr>"]
  by (auto simp add: render_articles_def split: prod.splits option.splits)

lemma handle_result_rows:
  "rows_after (handle_result d dt result p) =
     (case news_result_rows result of None \<Rightarrow> [] | Some rows \<Rightarrow> rows)"
proof (cases "Get result ''error''")
  case (Inl e)
  then show ?thesis
    by (simp add: handle_result_def news_result_rows_def rows_after_def)
next
  case (Inr err)
  show ?thesis
  proof (cases "truthy err")
    case True
    with Inr show ?thesis
      by (simp add: handle_result_def news_result_rows_def rows_after_def split: sum.splits)
  next
    case False
    from Inr obtain articles where a: "Get result ''articles'' = Inr articles"
      by (cases result) auto
    from Inr obtain is_mock where m: "Get result ''is_mock'' = Inr is_mock"
      by (cases result) auto
    show ?thesis
    proof (cases articles)
      case (JArr arts)
      show ?thesis
      proof (cases "arts = []")
        case True
        with Inr False a JArr show ?thesis
          by (simp add: handle_result_def news_result_rows_def rows_after_def no_articles_def
              strict_eq_zero_def)
      next
        case ne: False
        show ?thesis
        proof (cases "Array_map render_article arts")
          case (Inl e)
          obtain x p' where r: "render_articles d dt (JArr arts) (JNum False (decimal (length arts)))
              (p\<lparr>errorMessage_textContent :=
                   if truthy is_mock then mock_message d else ''Articles loaded successfully.''\<rparr>) = (x, p')"
            by (cases "render_articles d dt (JArr arts) (JNum False (decimal (length arts)))
              (p\<lparr>errorMessage_textContent :=
                   if truthy is_mock then mock_message d else ''Articles loaded successfully.''\<rparr>)")
          with render_articles_thrown [OF Inl, of d dt "JNum False (decimal (length arts))"
              "p\<lparr>errorMessage_textContent :=
                   if truthy is_mock then mock_message d else ''Articles loaded successfully.''\<rparr>"]
          have "x = Some e"
            by simp
          with r Inr False a m JArr ne Inl show ?thesis
            by (simp add: handle_result_def news_result_rows_def rows_after_def strict_eq_zero_def)
        next
          case (Inr rows)
          with \<open>Get result ''error'' = Inr err\<close> False a m JArr ne show ?thesis
            by (simp add: handle_result_def news_result_rows_def rows_after_def strict_eq_zero_def
                render_articles_rows)
        qed
      qed
    next
      case JUndefined
      with Inr False a show ?thesis
        by (simp add: handle_result_def news_result_rows_def rows_after_def no_articles_def)
    next
      case JNull
      with Inr False a show ?thesis
        by (simp add: handle_result_def news_result_rows_def rows_after_def no_articles_def)
    next
      case (JBool b)
      with Inr False a m show ?thesis
        by (simp add: handle_result_def news_result_rows_def rows_after_def no_articles_def
            strict_eq_zero_def render_articles_def)
    next
      case (JNum z t)
      with Inr False a m show ?thesis
        by (simp add: handle_result_def news_result_rows_def rows_after_def no_articles_def
            strict_eq_zero_def render_articles_def)
    next
      case (JStr s)
      with Inr False a m show ?thesis
        by (simp add: handle_result_def news_result_rows_def rows_after_def no_articles_def
            strict_eq_zero_def render_articles_def)
    next
      case (JObj kvs)
      with Inr False a m show ?thesis
        by (simp add: handle_result_def news_result_rows_def rows_after_def no_articles_def
            strict_eq_zero_def render_articles_def)
    qed
  qed
qed

lemma fetch_news_click_rows:
  "validated E p \<Longrightarrow>
   newsBody_rows (fetch_news_click E p) = rows_after (fetch_news_try E (district_value p) (date_value p) p)"
  by (simp add: fetch_news_click_validated rows_after_def fetch_news_catch_def
      split: prod.splits option.splits)

lemma fetch_news_try_rows:
  "rows_after (fetch_news_try E (district_value p) (date_value p) p) =
     (case news_result E p of
        None \<Rightarrow> []
      | Some result \<Rightarrow> (case news_result_rows result of None \<Rightarrow> [] | Some rows \<Rightarrow> rows))"
proof (cases "fetch E (FetchNews (district_value p) (date_value p))")
  case (Inl e)
  then show ?thesis
    by (simp add: fetch_news_try_def news_result_def rows_after_def Let_def)
next
  case (Inr r)
  show ?thesis
  proof (cases "ok r")
    case False
    with Inr show ?thesis
      by (simp add: fetch_news_try_def news_result_def rows_after_def Let_def)
  next
    case True
    show ?thesis
    proof (cases "JSON_parse E (read_text r)")
      case (Inl m)
      with Inr True show ?thesis
        by (simp add: fetch_news_try_def news_result_def rows_after_def Let_def)
    next
      case result: (Inr result)
      with Inr True show ?thesis
        by (simp add: fetch_news_try_parsed news_result_def handle_result_rows)
    qed
  qed
qed

lemma fetch_news_click_not_validated:
  "\<not> validated E p \<Longrightarrow> \<exists>m. fetch_news_click E p = p\<lparr>errorMessage_textContent := m\<rparr>"
  by (auto simp add: validated_def fetch_news_click_def Let_def)

text \<open>
  C3, as amended. After the handler completes: when a validation check fails, the page
  is the page from before with another status text, so the rows are the rows from
  before; when validation passes, the rows are those of this run's NewsResult, in
  order, if it is a successful one, and there are no rows otherwise (a failed request,
  a status that is not 2xx, a body that is not JSON, an error in the result, no
  articles, a throw while rendering).
\<close>

theorem rows_after_click:
  "newsBody_rows (fetch_news_click E p) =
     (if validated E p then
        (case news_result E p of
           None \<Rightarrow> []
         | Some result \<Rightarrow> (case news_result_rows result of None \<Rightarrow> [] | Some rows \<Rightarrow> rows))
      else newsBody_rows p) \<and>
   (\<not> validated E p \<longrightarrow> (\<exists>m. fetch_news_click E p = p\<lparr>errorMessage_textContent := m\<rparr>))"
proof (cases "validated E p")
  case True
  then show ?thesis
    by (simp add: fetch_news_click_rows fetch_news_try_rows)
next
  case False
  then obtain m where "fetch_news_click E p = p\<lparr>errorMessage_textContent := m\<rparr>"
    using fetch_news_click_not_validated by blast
  with False show ?thesis
    by auto
qed

lemma example_article_parsed:
  \<open>JSON_parse (example_env now outcome)
     (read_text \<lparr>ok = b, body = Some (Inr ''{"articles":[{"title":"A","url":"http://x","category":"Sports","source":{"name":"S"},"publishedAt":"2024-01-01","related_articles":[]}],"is_mock":false}'')\<rparr>) =
   Inr (JObj [(''articles'',
                JArr [JObj [(''title'', JStr ''A''), (''url'', JStr ''http://x''),
                            (''category'', JStr ''Sports''),
                            (''source'', JObj [(''name'', JStr ''S'')]),
                            (''publishedAt'', JStr ''2024-01-01''),
                            (''related_articles'', JArr [])]]),
               (''is_mock'', JBool False)])\<close>
  by (simp add: example_env_def example_bodies_def read_text_def consume_body_def body_text_def)

lemma example_article_object_title_parsed:
  \<open>JSON_parse (example_env now outcome)
     (read_text \<lparr>ok = b, body = Some (Inr ''{"articles":[{"title":{"toString":"x"}}]}'')\<rparr>) =
   Inr (JObj [(''articles'', JArr [JObj [(''title'', JObj [(''toString'', JStr ''x'')])]])])\<close>
  by (simp add: example_env_def example_bodies_def read_text_def consume_body_def body_text_def)

lemmas render_defs =
  render_article_def render_related_def and_then_def OptGet_def or_else_def str_or_else_def
  row_innerHTML_def row_indent_def a_tag_def related_div_def

lemma sixteen_spaces: "replicate 16 (CHR '' '') = ''                ''"
  by (simp add: eval_nat_numeral)

lemma twelve_spaces: "replicate 12 (CHR '' '') = ''            ''"
  by (simp add: eval_nat_numeral)

theorem rows_after_click_witness:
  \<open>newsBody_rows
     (fetch_news_click
        (example_env example_noon (Inr \<lparr>ok = True, body = Some (Inr ''{"articles":[{"title":"A","url":"http://x","category":"Sports","source":{"name":"S"},"publishedAt":"2024-01-01","related_articles":[]}],"is_mock":false}'')\<rparr>))
        (example_page ''Pune'' ''2024-01-14'')) =
     [CHR 0x0A # ''                <td><a href="http://x" target="_blank">A</a></td>'' @
      CHR 0x0A # ''                <td>Sports</td>'' @
      CHR 0x0A # ''                <td>S</td>'' @
      CHR 0x0A # ''                <td>2024-01-01</td>'' @
      CHR 0x0A # ''                <td>None</td>'' @
      CHR 0x0A # ''            ''] \<and>
   newsBody_rows
     (fetch_news_click
        (example_env example_noon (Inr \<lparr>ok = True, body = Some (Inr ''{"articles":[{"title":{"toString":"x"}}]}'')\<rparr>))
        (example_page ''Pune'' ''2024-01-14'')) = [] \<and>
   newsBody_rows
     (fetch_news_click
        (example_env example_noon (Inr \<lparr>ok = False, body = Some (Inr ''{"error":"rate limited"}'')\<rparr>))
        (example_page ''Pune'' ''2024-01-14'')) = [] \<and>
   (\<exists>m. fetch_news_click
        (example_env example_noon (Inr \<lparr>ok = False, body = Some (Inr ''{"error":"rate limited"}'')\<rparr>))
        (example_page ''Pune'' []) =
      (example_page ''Pune'' [])\<lparr>errorMessage_textContent := m\<rparr>)\<close>
proof -
  let ?r1 = \<open>\<lparr>ok = True, body = Some (Inr ''{"articles":[{"title":"A","url":"http://x","category":"Sports","source":{"name":"S"},"publishedAt":"2024-01-01","related_articles":[]}],"is_mock":false}'')\<rparr>\<close>
  let ?r2 = \<open>\<lparr>ok = False, body = Some (Inr ''{"error":"rate limited"}'')\<rparr>\<close>
  let ?r3 = \<open>\<lparr>ok = True, body = Some (Inr ''{"articles":[{"title":{"toString":"x"}}]}'')\<rparr>\<close>
  let ?E1 = "example_env example_noon (Inr ?r1)"
  let ?E2 = "example_env example_noon (Inr ?r2)"
  let ?E3 = "example_env example_noon (Inr ?r3)"
  let ?p = "example_page ''Pune'' ''2024-01-14''"
  let ?q = "example_page ''Pune'' []"
  let ?a = "JObj [(''title'', JStr ''A''), (''url'', JStr ''http://x''),
                  (''category'', JStr ''Sports''),
                  (''source'', JObj [(''name'', JStr ''S'')]),
                  (''publishedAt'', JStr ''2024-01-01''),
                  (''related_articles'', JArr [])]"
  let ?v = "JObj [(''articles'', JArr [?a]), (''is_mock'', JBool False)]"
  let ?b = "JObj [(''title'', JObj [(''toString'', JStr ''x'')])]"
  let ?w = "JObj [(''articles'', JArr [?b])]"
  let ?row = \<open>CHR 0x0A # ''                <td><a href="http://x" target="_blank">A</a></td>'' @
      CHR 0x0A # ''                <td>Sports</td>'' @
      CHR 0x0A # ''                <td>S</td>'' @
      CHR 0x0A # ''                <td>2024-01-01</td>'' @
      CHR 0x0A # ''                <td>None</td>'' @
      CHR 0x0A # ''            ''\<close>
  have f1: "fetch ?E1 (FetchNews (district_value ?p) (date_value ?p)) = Inr ?r1"
    by (simp add: example_env_def)
  have n1: "news_result ?E1 ?p = Some ?v"
    by (simp add: news_result_def f1 example_article_parsed)
  have a: "render_article ?a = Inr ?row"
    by (simp add: render_defs sixteen_spaces twelve_spaces)
  have r1: "news_result_rows ?v = Some [?row]"
    by (simp add: news_result_rows_def a)
  have f2: "fetch ?E2 (FetchNews (district_value ?p) (date_value ?p)) = Inr ?r2"
    by (simp add: example_env_def)
  have n2: "news_result ?E2 ?p = None"
    by (simp add: news_result_def f2)
  have f3: "fetch ?E3 (FetchNews (district_value ?p) (date_value ?p)) = Inr ?r3"
    by (simp add: example_env_def)
  have n3: "news_result ?E3 ?p = Some ?w"
    by (simp add: news_result_def f3 example_article_object_title_parsed)
  have b: "render_article ?b = Inl (EngineTypeError NotPrimitive)"
    by (simp add: render_defs)
  have r3: "news_result_rows ?w = None"
    by (simp add: news_result_rows_def b)
  have q: "\<not> validated ?E2 ?q"
    by (simp add: validated_def example_page_def)
  show ?thesis
    using rows_after_click [of ?E1 ?p] rows_after_click [of ?E2 ?p] rows_after_click [of ?E3 ?p]
      rows_after_click [of ?E2 ?q]
    by (simp add: example_validated n1 r1 n2 n3 r3 q)
qed

text \<open>
  A click with no district selected, on a page that shows a row: the row stays, under
  the message \<^verbatim>\<open>Please select a district\<close>.
\<close>

theorem validation_failure_keeps_rows_counterexample:
  "newsBody_rows
     (fetch_news_click (example_env example_noon (Inl (Thrown ''TypeError'' ''Failed to fetch'')))
        (example_page [] ''2024-01-14'')) = [''<td>yesterday</td>''] \<and>
   errorMessage_textContent
     (fetch_news_click (example_env example_noon (Inl (Thrown ''TypeError'' ''Failed to fetch'')))
        (example_page [] ''2024-01-14'')) = ''Please select a district''"
  by (simp add: fetch_news_click_def example_page_def)

section \<open>Rendering the articles of the data model\<close>
















section \<open>The download button\<close>

lemma downloadButton_click_not_ok:
  assumes "downloadButton_onclick p = Some (articles, district, date)"
    and "fetch E (GeneratePdf articles district date) = Inr r"
    and "\<not> ok r"
  shows "downloadButton_click E p =
           p\<lparr>errorMessage_textContent := pdf_userMessage E (read_text r),
             requests := requests p @ [GeneratePdf articles district date]\<rparr>"
  using assms
  by (simp add: downloadButton_click_def generate_pdf_try_def read_text_def Let_def
      split: prod.splits)

lemma downloadButton_click_frame:
  "newsBody_rows (downloadButton_click E p) = newsBody_rows p \<and>
   downloadButton_display (downloadButton_click E p) = downloadButton_display p"
  by (simp add: downloadButton_click_def generate_pdf_try_def save_blob_def Let_def
      split: option.splits prod.splits sum.splits)

text \<open>
  C7, as amended. For a \<^verbatim>\<open>/generate_pdf\<close> response that is not 2xx: when its body
  parses as JSON with a truthy \<^verbatim>\<open>error\<close> that converts to a string, the status line
  is \<^verbatim>\<open>PDF generation failed: \<close> followed by that string; in every other case (not
  JSON, no such field, a falsy one, or one whose conversion throws inside the
  \<^verbatim>\<open>try\<close> of lines 130 to 137), the status line is
  \<^verbatim>\<open>Failed to generate PDF. Please try again later.\<close>. Either way the page differs
  from the page before only in the status line (and in the request that was issued).
  On every path of the download handler, failed or not, the rows and the button's
  display are those from before.
\<close>

theorem pdf_failure_changes_status_only:
  "(downloadButton_onclick p = Some (articles, district, date) \<and>
    fetch E (GeneratePdf articles district date) = Inr r \<and> \<not> ok r \<longrightarrow>
      (\<forall>pdfError err error_text.
          JSON_parse E (read_text r) = Inr pdfError \<and> Get pdfError ''error'' = Inr err \<and>
          truthy err \<and> ToString err = Inr error_text \<longrightarrow>
          downloadButton_click E p =
            p\<lparr>errorMessage_textContent := ''PDF generation failed: '' @ error_text,
              requests := requests p @ [GeneratePdf articles district date]\<rparr>) \<and>
      ((\<nexists>pdfError err error_text.
          JSON_parse E (read_text r) = Inr pdfError \<and> Get pdfError ''error'' = Inr err \<and>
          truthy err \<and> ToString err = Inr error_text) \<longrightarrow>
          downloadButton_click E p =
            p\<lparr>errorMessage_textContent := ''Failed to generate PDF. Please try again later.'',
              requests := requests p @ [GeneratePdf articles district date]\<rparr>)) \<and>
   newsBody_rows (downloadButton_click E p) = newsBody_rows p \<and>
   downloadButton_display (downloadButton_click E p) = downloadButton_display p"
proof -
  have 1: "pdf_userMessage E (read_text r) = ''PDF generation failed: '' @ error_text"
    if "JSON_parse E (read_text r) = Inr pdfError" "Get pdfError ''error'' = Inr err" "truthy err"
      "ToString err = Inr error_text"
    for pdfError err error_text
    using that by (simp add: pdf_userMessage_def)
  have 2: "pdf_userMessage E (read_text r) = ''Failed to generate PDF. Please try again later.''"
    if "\<nexists>pdfError err error_text.
          JSON_parse E (read_text r) = Inr pdfError \<and> Get pdfError ''error'' = Inr err \<and>
          truthy err \<and> ToString err = Inr error_text"
    using that by (auto simp add: pdf_userMessage_def split: sum.splits)
  show ?thesis
    using 1 2 by (auto simp add: downloadButton_click_not_ok downloadButton_click_frame)
qed

lemma example_bad_input:
  \<open>JSON_parse (example_env now outcome)
     (read_text \<lparr>ok = b, body = Some (Inr ''{"error":"bad input"}'')\<rparr>) =
   Inr (JObj [(''error'', JStr ''bad input'')])\<close>
  by (simp add: example_env_def example_bodies_def read_text_def consume_body_def body_text_def)

lemma example_not_json:
  "JSON_parse (example_env now outcome)
     (read_text \<lparr>ok = b, body = Some (Inr ''<html>Bad gateway</html>'')\<rparr>) =
   Inl ''Unexpected token''"
  by (simp add: example_env_def example_bodies_def read_text_def consume_body_def body_text_def)

theorem pdf_failure_changes_status_only_witness:
  \<open>downloadButton_click
     (example_env example_noon (Inr \<lparr>ok = False, body = Some (Inr ''{"error":"bad input"}'')\<rparr>))
     (example_page ''Pune'' ''2024-01-14'') =
   (example_page ''Pune'' ''2024-01-14'')
     \<lparr>errorMessage_textContent := ''PDF generation failed: bad input'',
      requests := [GeneratePdf (JArr [JObj [(''title'', JStr ''Y'')]]) ''Pune'' ''2024-01-13'']\<rparr> \<and>
   downloadButton_click
     (example_env example_noon (Inr \<lparr>ok = False, body = Some (Inr ''<html>Bad gateway</html>'')\<rparr>))
     (example_page ''Pune'' ''2024-01-14'') =
   (example_page ''Pune'' ''2024-01-14'')
     \<lparr>errorMessage_textContent := ''Failed to generate PDF. Please try again later.'',
      requests := [GeneratePdf (JArr [JObj [(''title'', JStr ''Y'')]]) ''Pune'' ''2024-01-13'']\<rparr> \<and>
   downloadButton_click
     (example_env example_noon (Inr \<lparr>ok = False, body = Some (Inr ''{"error":{"toString":"x"}}'')\<rparr>))
     (example_page ''Pune'' ''2024-01-14'') =
   (example_page ''Pune'' ''2024-01-14'')
     \<lparr>errorMessage_textContent := ''Failed to generate PDF. Please try again later.'',
      requests := [GeneratePdf (JArr [JObj [(''title'', JStr ''Y'')]]) ''Pune'' ''2024-01-13'']\<rparr> \<and>
   newsBody_rows
     (downloadButton_click
        (example_env example_noon (Inr \<lparr>ok = False, body = Some (Inr ''{"error":"bad input"}'')\<rparr>))
        (example_page ''Pune'' ''2024-01-14'')) = [''<td>yesterday</td>'']\<close>
proof -
  let ?r1 = \<open>\<lparr>ok = False, body = Some (Inr ''{"error":"bad input"}'')\<rparr>\<close>
  let ?r2 = "\<lparr>ok = False, body = Some (Inr ''<html>Bad gateway</html>'')\<rparr>"
  let ?r3 = \<open>\<lparr>ok = False, body = Some (Inr ''{"error":{"toString":"x"}}'')\<rparr>\<close>
  let ?E1 = "example_env example_noon (Inr ?r1)"
  let ?E2 = "example_env example_noon (Inr ?r2)"
  let ?E3 = "example_env example_noon (Inr ?r3)"
  let ?p = "example_page ''Pune'' ''2024-01-14''"
  let ?as = "JArr [JObj [(''title'', JStr ''Y'')]]"
  have c: "downloadButton_onclick ?p = Some (?as, ''Pune'', ''2024-01-13'')"
    by (simp add: example_page_def)
  have f1: "fetch ?E1 (GeneratePdf ?as ''Pune'' ''2024-01-13'') = Inr ?r1"
    by (simp add: example_env_def)
  have f2: "fetch ?E2 (GeneratePdf ?as ''Pune'' ''2024-01-13'') = Inr ?r2"
    by (simp add: example_env_def)
  have f3: "fetch ?E3 (GeneratePdf ?as ''Pune'' ''2024-01-13'') = Inr ?r3"
    by (simp add: example_env_def)
  have k1: "\<not> ok ?r1" and k2: "\<not> ok ?r2" and k3: "\<not> ok ?r3"
    by simp_all
  have j1: "JSON_parse ?E1 (read_text ?r1) = Inr (JObj [(''error'', JStr ''bad input'')]) \<and>
            Get (JObj [(''error'', JStr ''bad input'')]) ''error'' = Inr (JStr ''bad input'') \<and>
            truthy (JStr ''bad input'') \<and> ToString (JStr ''bad input'') = Inr ''bad input''"
    by (simp add: example_bad_input)
  have j2: "\<nexists>pdfError err error_text.
          JSON_parse ?E2 (read_text ?r2) = Inr pdfError \<and> Get pdfError ''error'' = Inr err \<and>
          truthy err \<and> ToString err = Inr error_text"
    by (simp add: example_not_json)
  have j3: "\<nexists>pdfError err error_text.
          JSON_parse ?E3 (read_text ?r3) = Inr pdfError \<and> Get pdfError ''error'' = Inr err \<and>
          truthy err \<and> ToString err = Inr error_text"
    by (auto simp add: example_error_object)
  have 1: "downloadButton_click ?E1 ?p =
      ?p\<lparr>errorMessage_textContent := ''PDF generation failed: '' @ ''bad input'',
         requests := requests ?p @ [GeneratePdf ?as ''Pune'' ''2024-01-13'']\<rparr>"
    using pdf_failure_changes_status_only [of ?p ?as "''Pune''" "''2024-01-13''" ?E1 ?r1] c f1 k1 j1
    by blast
  have 2: "downloadButton_click ?E2 ?p =
      ?p\<lparr>errorMessage_textContent := ''Failed to generate PDF. Please try again later.'',
         requests := requests ?p @ [GeneratePdf ?as ''Pune'' ''2024-01-13'']\<rparr>"
    using pdf_failure_changes_status_only [of ?p ?as "''Pune''" "''2024-01-13''" ?E2 ?r2] c f2 k2 j2
    by blast
  have 3: "downloadButton_click ?E3 ?p =
      ?p\<lparr>errorMessage_textContent := ''Failed to generate PDF. Please try again later.'',
         requests := requests ?p @ [GeneratePdf ?as ''Pune'' ''2024-01-13'']\<rparr>"
    using pdf_failure_changes_status_only [of ?p ?as "''Pune''" "''2024-01-13''" ?E3 ?r3] c f3 k3 j3
    by blast
  show ?thesis
    by (simp add: 1 2 3) (simp add: example_page_def)
qed

text \<open>
  The body \<^verbatim>\<open>{"error":{"toString":"x"}}\<close> with a status that is not 2xx: the
  \<^verbatim>\<open>error\<close> field is truthy, and the status line is the generic one.
\<close>

theorem pdf_error_conversion_counterexample:
  \<open>truthy (JObj [(''toString'', JStr ''x'')]) \<and>
   errorMessage_textContent
     (downloadButton_click
        (example_env example_noon (Inr \<lparr>ok = False, body = Some (Inr ''{"error":{"toString":"x"}}'')\<rparr>))
        (example_page ''Pune'' ''2024-01-14'')) =
     ''Failed to generate PDF. Please try again later.''\<close>
proof -
  let ?r = \<open>\<lparr>ok = False, body = Some (Inr ''{"error":{"toString":"x"}}'')\<rparr>\<close>
  let ?E = "example_env example_noon (Inr ?r)"
  let ?p = "example_page ''Pune'' ''2024-01-14''"
  let ?as = "JArr [JObj [(''title'', JStr ''Y'')]]"
  have c: "downloadButton_onclick ?p = Some (?as, ''Pune'', ''2024-01-13'')"
    by (simp add: example_page_def)
  have f: "fetch ?E (GeneratePdf ?as ''Pune'' ''2024-01-13'') = Inr ?r"
    by (simp add: example_env_def)
  have k: "\<not> ok ?r"
    by simp
  have m: "pdf_userMessage ?E (read_text ?r) = ''Failed to generate PDF. Please try again later.''"
    by (simp add: pdf_userMessage_def example_error_object)
  have "errorMessage_textContent (downloadButton_click ?E ?p) =
      ''Failed to generate PDF. Please try again later.''"
    by (simp add: downloadButton_click_not_ok [OF c f k] m)
  then show ?thesis
    by simp
qed

text \<open>
  A 2xx response with a body: \<^verbatim>\<open>text()\<close> has read the body (line 122) when
  \<^verbatim>\<open>blob()\<close> is called on the same response (line 141), so \<^verbatim>\<open>blob()\<close> rejects and
  the closure's \<^verbatim>\<open>catch\<close> shows the engine's message. Nothing is downloaded.
\<close>

lemma downloadButton_click_body_read_twice:
  assumes "downloadButton_onclick p = Some (articles, district, date)"
    and "fetch E (GeneratePdf articles district date) = Inr r"
    and "ok r"
    and "body r = Some content"
  shows "downloadButton_click E p =
           p\<lparr>errorMessage_textContent := TypeError_message E BodyAlreadyRead,
             requests := requests p @ [GeneratePdf articles district date]\<rparr>"
  using assms
  by (simp add: downloadButton_click_def generate_pdf_try_def consume_body_def Let_def)

text \<open>
  C8, on the code. A 200 response that carries a PDF document: the status line is the
  engine's message for a body that was already read, not
  \<^verbatim>\<open>PDF downloaded successfully\<close>, and no download is triggered. The rows and the
  button's display are as before.
\<close>

theorem pdf_download_reads_body_twice:
  "downloadButton_click
     (example_env example_noon (Inr \<lparr>ok = True, body = Some (Inr ''%PDF-1.4 ...'')\<rparr>))
     (example_page ''Pune'' ''2024-01-14'') =
   (example_page ''Pune'' ''2024-01-14'')
     \<lparr>errorMessage_textContent := ''body stream already read'',
      requests := [GeneratePdf (JArr [JObj [(''title'', JStr ''Y'')]]) ''Pune'' ''2024-01-13'']\<rparr> \<and>
   downloads
     (downloadButton_click
        (example_env example_noon (Inr \<lparr>ok = True, body = Some (Inr ''%PDF-1.4 ...'')\<rparr>))
        (example_page ''Pune'' ''2024-01-14'')) = []"
proof -
  let ?r = "\<lparr>ok = True, body = Some (Inr ''%PDF-1.4 ...'')\<rparr>"
  let ?E = "example_env example_noon (Inr ?r)"
  let ?p = "example_page ''Pune'' ''2024-01-14''"
  let ?as = "JArr [JObj [(''title'', JStr ''Y'')]]"
  have c: "downloadButton_onclick ?p = Some (?as, ''Pune'', ''2024-01-13'')"
    by (simp add: example_page_def)
  have f: "fetch ?E (GeneratePdf ?as ''Pune'' ''2024-01-13'') = Inr ?r"
    by (simp add: example_env_def)
  have m: "TypeError_message ?E BodyAlreadyRead = ''body stream already read''"
    by (simp add: example_env_def)
  have "downloadButton_click ?E ?p =
      ?p\<lparr>errorMessage_textContent := ''body stream already read'',
         requests := requests ?p @ [GeneratePdf ?as ''Pune'' ''2024-01-13'']\<rparr>"
    using downloadButton_click_body_read_twice [OF c f, of "Inr ''%PDF-1.4 ...''"] m by simp
  then show ?thesis
    by (simp add: example_page_def)
qed

text \<open>
  The lines after \<^verbatim>\<open>blob()\<close> do what they are written for when they are reached,
  which takes a 2xx response with a null body (status 204 or 205).
\<close>

lemma downloadButton_click_null_body:
  assumes "downloadButton_onclick p = Some (articles, district, date)"
    and "fetch E (GeneratePdf articles district date) = Inr r"
    and "ok r"
    and "body r = None"
    and "next_object_url p \<notin> fst ` set (object_urls p)"
  shows "downloads (downloadButton_click E p) =
           downloads p @ [(''news_digest_'' @ district @ ''_'' @ date @ ''.pdf'', Some [])] \<and>
         body_children (downloadButton_click E p) = body_children p \<and>
         errorMessage_textContent (downloadButton_click E p) = ''PDF downloaded successfully'' \<and>
         newsBody_rows (downloadButton_click E p) = newsBody_rows p \<and>
         downloadButton_display (downloadButton_click E p) = downloadButton_display p"
proof -
  have "map_of (object_urls p) (next_object_url p) = None"
    using assms(5) by (simp add: map_of_eq_None_iff)
  with assms(1-4) show ?thesis
    by (simp add: downloadButton_click_def generate_pdf_try_def consume_body_def save_blob_def
        Let_def map_add_def)
qed

section \<open>The login form\<close>






end
